theory Spec2Isabelle
  imports Main
begin

section \<open>Values, errors, logging and external effects\<close>

text \<open>
  The repository is a Fastify plugin around the \<^verbatim>\<open>pg\<close> connection pool. Its source comes in
  several historical variants of the same \<^verbatim>\<open>Database\<close> class:
  \<^item> \<^verbatim>\<open>src/unnamed/part_001\<close>: per-method patch flags, synchronous \<^verbatim>\<open>release\<close>,
    \<^verbatim>\<open>beginTransaction\<close> / \<^verbatim>\<open>commitTransaction\<close> / \<^verbatim>\<open>rollbackTransactionIfNotCommitted\<close>;
  \<^item> \<^verbatim>\<open>src/unnamed/part_000\<close>, second class: asynchronous \<^verbatim>\<open>release\<close>,
    \<^verbatim>\<open>asyncBeginTransaction\<close> / \<^verbatim>\<open>asyncCommitTransaction\<close> / \<^verbatim>\<open>asyncTryRollback\<close>
    (suffix \<open>_async\<close> below);
  \<^item> \<^verbatim>\<open>src/unnamed/part_000\<close>, first class: client list on the request, no transactions
    (suffix \<open>_list\<close>);
  \<^item> \<^verbatim>\<open>src/database.js\<close>: a single \<^verbatim>\<open>patched\<close> flag, no transactions (suffix \<open>_db\<close>).
  Unsuffixed names are those of \<^verbatim>\<open>part_001\<close>.
\<close>

datatype error = DbError string | TypeError string

type_synonym named = "(string \<times> string) list"

text \<open>The \<^verbatim>\<open>params\<close> argument of a query: \<^verbatim>\<open>undefined\<close>, a plain object of named values, or
  an array of positional values.\<close>

datatype params = NoParams | Object named | Array "string list"

datatype qresult = QResult nat "string list"

text \<open>Values: \<^verbatim>\<open>undefined\<close>, a boolean, a query result, an object by its identity, an array.\<close>

datatype jsval = Undefined | Bool bool | Rows qresult | ObjRef nat | Arr "jsval list"

fun truthy :: "jsval \<Rightarrow> bool" where
  "truthy Undefined = False"
| "truthy (Bool b) = b"
| "truthy (Rows r) = True"
| "truthy (ObjRef n) = True"
| "truthy (Arr xs) = True"

datatype level = Trace | Warn | Error

datatype log_entry = Log level string "error option"

text \<open>What the code hands to its external collaborators: a query given to the driver, the
  connection handed back to the pool, a timer armed (handle, delay in ms) or cancelled.\<close>

datatype effect = Sent string params | PoolRelease | SetTimeout nat nat | ClearTimeout nat

text \<open>The two awaited I/O operations and how a pending promise settles.\<close>

datatype io = DriverQuery string params | PoolConnect

datatype outcome = Resolved jsval | Rejected error

section \<open>Method slots of the connection object\<close>

text \<open>
  \<^verbatim>\<open>patchClient\<close> replaces \<^verbatim>\<open>client.query\<close> and \<^verbatim>\<open>client.release\<close> by closures that capture the
  previous method (\<^verbatim>\<open>oldQueryMethod\<close>, \<^verbatim>\<open>oldReleaseMethod\<close>). A method value is the closure
  together with what it captured.
\<close>

text \<open>
  Modelled from the spec: \<^verbatim>\<open>./named_parameters\<close> (\<^verbatim>\<open>patchNamedParameters\<close>) is not among the
  sources. Following the spec's contract of the named-parameter rewriter, it wraps
  \<^verbatim>\<open>client.query\<close>: given a mapping from names to values it turns the text into a positional
  query plus an ordered argument list, or fails when a referenced name is missing; the
  rewriting function itself is a parameter.
\<close>

type_synonym rewriter = "string \<Rightarrow> named \<Rightarrow> error + string \<times> string list"

datatype qmethod =
    PgQuery
  | NamedQuery rewriter qmethod
  | PatchedQuery qmethod
  | PatchedQuery_db qmethod

datatype rmethod =
    NativeRelease
  | PatchedRelease rmethod
  | PatchedRelease_async rmethod
  | PatchedRelease_list rmethod
  | PatchedRelease_db rmethod

text \<open>The property \<^verbatim>\<open>methodWasPatched_\<close> set on the closures of \<^verbatim>\<open>part_000\<close> and \<^verbatim>\<open>part_001\<close>;
  the closures of \<^verbatim>\<open>database.js\<close> do not carry it.\<close>

fun query_methodWasPatched :: "qmethod \<Rightarrow> bool" where
  "query_methodWasPatched (PatchedQuery old) = True"
| "query_methodWasPatched m = False"

fun release_methodWasPatched :: "rmethod \<Rightarrow> bool" where
  "release_methodWasPatched (PatchedRelease old) = True"
| "release_methodWasPatched (PatchedRelease_async old) = True"
| "release_methodWasPatched (PatchedRelease_list old) = True"
| "release_methodWasPatched m = False"

section \<open>The state\<close>

text \<open>
  One record holds the fields of the pooled connection object the code works on, the
  \<^verbatim>\<open>Database\<close> handler, the Fastify instance and the request, and what the environment has
  seen (log lines and effects). The transaction methods capture nothing, so their slots
  only say whether the override is installed.
\<close>

record world =
  \<comment> \<open>the connection object\<close>
  uniqueId :: "nat option"
  namedParameters :: bool
  patched :: bool
  lastQuery :: "(string \<times> params) option"
  isQueryRunning :: bool
  isWithinTransaction :: bool
  sanityTimeout :: "nat option"
  query_m :: qmethod
  release_m :: rmethod
  beginTransaction_m :: bool
  commitTransaction_m :: bool
  rollbackTransactionIfNotCommitted_m :: bool
  asyncBeginTransaction_m :: bool
  asyncCommitTransaction_m :: bool
  asyncTryRollback_m :: bool
  \<comment> \<open>the Database handler\<close>
  clientIdCounter :: nat
  requestDecorator :: string
  clientDecorator :: string
  \<comment> \<open>the Fastify instance: is \<^verbatim>\<open>addCleanupWork\<close> there, and what was registered\<close>
  addCleanupWork :: bool
  cleanupWork :: "(jsval \<times> string) list"
  \<comment> \<open>the request object: its properties by name, \<^verbatim>\<open>dbClients\<close> among them\<close>
  request :: "string \<rightharpoonup> jsval"
  \<comment> \<open>the environment\<close>
  logged :: "log_entry list"
  effects :: "effect list"
  nextTimer :: nat

definition logger :: "level \<Rightarrow> string \<Rightarrow> error option \<Rightarrow> world \<Rightarrow> world" where
  "logger l msg e w = w\<lparr>logged := logged w @ [Log l msg e]\<rparr>"

section \<open>Asynchronous control flow\<close>

text \<open>
  An \<^verbatim>\<open>async\<close> function runs synchronously up to its first \<^verbatim>\<open>await\<close> of pending I/O. A
  task is what a call has become: returned, thrown, suspended on I/O (with the state it
  left behind and its continuation, which receives the state found on resumption), or
  carrying a detached job: a promise nobody awaits, whose continuation runs on its own
  when its I/O settles.
\<close>

datatype task =
    Return jsval world
  | Throw error world
  | Await io world "outcome \<Rightarrow> world \<Rightarrow> task"
  | Detach io "outcome \<Rightarrow> world \<Rightarrow> task" task

text \<open>\<^verbatim>\<open>await t\<close> followed by the rest of the function.\<close>

primrec bind :: "task \<Rightarrow> (jsval \<Rightarrow> world \<Rightarrow> task) \<Rightarrow> task" where
  "bind (Return v w) f = f v w"
| "bind (Throw e w) f = Throw e w"
| "bind (Await q w k) f = Await q w (\<lambda>out w'. bind (k out w') f)"
| "bind (Detach q k t) f = Detach q k (bind t f)"

text \<open>\<^verbatim>\<open>try { t } catch (err) { h }\<close>; a detached job is outside the \<^verbatim>\<open>try\<close>.\<close>

primrec try_catch :: "task \<Rightarrow> (error \<Rightarrow> world \<Rightarrow> task) \<Rightarrow> task" where
  "try_catch (Return v w) h = Return v w"
| "try_catch (Throw e w) h = h e w"
| "try_catch (Await q w k) h = Await q w (\<lambda>out w'. try_catch (k out w') h)"
| "try_catch (Detach q k t) h = Detach q k (try_catch t h)"

text \<open>\<^verbatim>\<open>try { t } finally { f }\<close> for a synchronous block \<open>f\<close> that does not throw.\<close>

primrec try_finally :: "task \<Rightarrow> (world \<Rightarrow> world) \<Rightarrow> task" where
  "try_finally (Return v w) f = Return v (f w)"
| "try_finally (Throw e w) f = Throw e (f w)"
| "try_finally (Await q w k) f = Await q w (\<lambda>out w'. try_finally (k out w') f)"
| "try_finally (Detach q k t) f = Detach q k (try_finally t f)"

text \<open>A call of an \<^verbatim>\<open>async\<close> function whose promise is dropped: its synchronous prefix has
  run, a rejection is lost, and the caller goes on with \<open>rest\<close>.\<close>

primrec floating :: "task \<Rightarrow> (world \<Rightarrow> task) \<Rightarrow> task" where
  "floating (Return v w) rest = rest w"
| "floating (Throw e w) rest = rest w"
| "floating (Await q w k) rest = Detach q k (rest w)"
| "floating (Detach q k t) rest = Detach q k (floating t rest)"

definition settle :: "outcome \<Rightarrow> world \<Rightarrow> task" where
  "settle out w = (case out of Resolved v \<Rightarrow> Return v w | Rejected e \<Rightarrow> Throw e w)"

text \<open>Observers. \<open>first_await\<close> is the first suspension of the awaited flow: the I/O in
  flight and the state every other piece of code sees meanwhile. \<open>run\<close> drives the
  awaited flow to its end, the environment \<open>drv\<close> settling each I/O; \<open>detached\<close> lists the
  jobs left behind, still pending.\<close>

primrec first_await :: "task \<Rightarrow> (io \<times> world) option" where
  "first_await (Return v w) = None"
| "first_await (Throw e w) = None"
| "first_await (Await q w k) = Some (q, w)"
| "first_await (Detach q k t) = first_await t"

datatype completion = Normal jsval | Thrown error

primrec run :: "(io \<Rightarrow> world \<Rightarrow> outcome) \<Rightarrow> task \<Rightarrow> completion \<times> world" where
  "run drv (Return v w) = (Normal v, w)"
| "run drv (Throw e w) = (Thrown e, w)"
| "run drv (Await q w k) = run drv (k (drv q w) w)"
| "run drv (Detach q k t) = run drv t"

primrec detached :: "(io \<Rightarrow> world \<Rightarrow> outcome) \<Rightarrow> task \<Rightarrow> (io \<times> (outcome \<Rightarrow> world \<Rightarrow> task)) list" where
  "detached drv (Return v w) = []"
| "detached drv (Throw e w) = []"
| "detached drv (Await q w k) = detached drv (k (drv q w) w)"
| "detached drv (Detach q k t) = (q, k) # detached drv t"

section \<open>The patched query\<close>

text \<open>
  \<^verbatim>\<open>text.replace(/[ \n\r\t]+/gi, " ").replace(/^\s+|\s+$/g, "")\<close>.
  A string is its list of code units, here those below 256. The first replacement turns
  every maximal run of space, line feed, carriage return and tab into one space; the second
  removes the leading and the trailing run of \<^verbatim>\<open>\s\<close>, which below 256 is the code units
  9 to 13, 32 and 160.
\<close>

definition is_blank :: "char \<Rightarrow> bool" where
  "is_blank c = (c = CHR '' '' \<or> c = CHR 0x0A \<or> c = CHR 0x0D \<or> c = CHR 0x09)"

definition is_space :: "char \<Rightarrow> bool" where
  "is_space c = (is_blank c \<or> c = CHR 0x0B \<or> c = CHR 0x0C \<or> c = CHR 0xA0)"

function collapse :: "string \<Rightarrow> string" where
  "collapse [] = []"
| "collapse (c # cs) =
     (if is_blank c then CHR '' '' # collapse (dropWhile is_blank cs) else c # collapse cs)"
  by pat_completeness auto
termination
  by (relation "measure length") (auto simp: less_Suc_eq_le length_dropWhile_le)

definition trim :: "string \<Rightarrow> string" where
  "trim s = rev (dropWhile is_space (rev (dropWhile is_space s)))"

definition trimmedText :: "string \<Rightarrow> string" where
  "trimmedText text = trim (collapse text)"

text \<open>
  \<^verbatim>\<open>method.call(this, text, params)\<close> for each kind of method value.
  \<^item> The driver's own query hands the request over and suspends until it settles.
  \<^item> The named-parameter wrapper (modelled from the spec, as said above) rewrites when
    \<^verbatim>\<open>params\<close> is a plain object, and throws when the rewriter fails.
  \<^item> The override of \<^verbatim>\<open>part_000\<close> / \<^verbatim>\<open>part_001\<close> records the normalised text, sets the running
    flag, delegates with the text as given, logs and rethrows on error, and clears the flag
    in \<^verbatim>\<open>finally\<close>.
  \<^item> The override of \<^verbatim>\<open>database.js\<close> logs a trace line and records the text as given.
  The structured data of a log line is left out, but for the error of a failed query.
\<close>

primrec call_query :: "qmethod \<Rightarrow> string \<Rightarrow> params \<Rightarrow> world \<Rightarrow> task" where
  "call_query PgQuery text ps w =
     Await (DriverQuery text ps) (w\<lparr>effects := effects w @ [Sent text ps]\<rparr>) settle"
| "call_query (NamedQuery rw old) text ps w =
     (case ps of
        Object m \<Rightarrow>
          (case rw text m of
             Inl e \<Rightarrow> Throw e w
           | Inr r \<Rightarrow> call_query old (fst r) (Array (snd r)) w)
      | NoParams \<Rightarrow> call_query old text ps w
      | Array xs \<Rightarrow> call_query old text ps w)"
| "call_query (PatchedQuery old) text ps w =
     try_finally
       (try_catch
          (call_query old text ps
             (w\<lparr>lastQuery := Some (trimmedText text, ps), isQueryRunning := True\<rparr>))
          (\<lambda>err w'. Throw err (logger Error ''Database query error'' (Some err) w')))
       (\<lambda>w'. w'\<lparr>isQueryRunning := False\<rparr>)"
| "call_query (PatchedQuery_db old) text ps w =
     try_finally
       (try_catch
          (call_query old text ps
             ((logger Trace ''Issuing query'' None w)
                \<lparr>lastQuery := Some (text, ps), isQueryRunning := True\<rparr>))
          (\<lambda>err w'. Throw err (logger Error ''Database query error'' (Some err) w')))
       (\<lambda>w'. w'\<lparr>isQueryRunning := False\<rparr>)"

text \<open>\<^verbatim>\<open>this.query(text, params)\<close>: whatever method the object holds at the time of the call.\<close>

definition query :: "string \<Rightarrow> params \<Rightarrow> world \<Rightarrow> task" where
  "query text ps w = call_query (query_m w) text ps w"

section \<open>Transactions\<close>

text \<open>\<^verbatim>\<open>part_001\<close>, lines 201 to 244.\<close>

definition beginTransaction :: "world \<Rightarrow> task" where
  "beginTransaction w =
     (if isWithinTransaction w
      then Return (Bool False) (logger Error ''Tried to start transaction in transaction'' None w)
      else bind (query ''begin'' NoParams (logger Trace ''begin transaction'' None w))
             (\<lambda>_ w'. Return Undefined (w'\<lparr>isWithinTransaction := True\<rparr>)))"

definition commitTransaction :: "world \<Rightarrow> task" where
  "commitTransaction w =
     (if \<not> isWithinTransaction w
      then Return (Bool False)
             (logger Error ''Tried to commit transaction outside of transaction'' None w)
      else bind (query ''commit'' NoParams (w\<lparr>isWithinTransaction := False\<rparr>))
             (\<lambda>_ w'. Return Undefined w'))"

definition rollbackTransactionIfNotCommitted :: "world \<Rightarrow> task" where
  "rollbackTransactionIfNotCommitted w =
     (if isWithinTransaction w
      then bind (query ''rollback'' NoParams
                   (logger Warn ''Rolling back transaction'' None (w\<lparr>isWithinTransaction := False\<rparr>)))
             (\<lambda>_ w'. Return Undefined w')
      else Return Undefined w)"

text \<open>\<^verbatim>\<open>part_000\<close>, second class, lines 394 to 442.\<close>

definition asyncBeginTransaction :: "world \<Rightarrow> task" where
  "asyncBeginTransaction w =
     (if isWithinTransaction w
      then Return (Bool False) (logger Error ''Tried to start transaction in transaction'' None w)
      else bind (query ''begin'' NoParams ((logger Trace ''BEGIN <'' None w)\<lparr>isWithinTransaction := True\<rparr>))
             (\<lambda>_ w'. Return Undefined (logger Trace ''BEGIN < Done'' None w')))"

definition asyncCommitTransaction :: "world \<Rightarrow> task" where
  "asyncCommitTransaction w =
     (if \<not> isWithinTransaction w
      then Return (Bool False)
             (logger Error ''Tried to commit transaction outside of transaction on client'' None w)
      else bind (query ''commit'' NoParams (logger Trace ''COMMIT <'' None w))
             (\<lambda>_ w'. Return Undefined
                (logger Trace ''COMMIT < Done'' None (w'\<lparr>isWithinTransaction := False\<rparr>))))"

definition asyncTryRollback :: "world \<Rightarrow> task" where
  "asyncTryRollback w =
     (let w0 = logger Trace ''Called rollbackIfNotCommitted, within transaction = '' None w in
      if isWithinTransaction w0
      then bind (query ''rollback'' NoParams
                   ((logger Warn ''ROLLBACK <'' None w0)\<lparr>isWithinTransaction := False\<rparr>))
             (\<lambda>_ w'. Return Undefined (logger Warn ''ROLLBACK < Done'' None w'))
      else Return Undefined w0)"

section \<open>Release\<close>

text \<open>\<^verbatim>\<open>if (this.sanityTimeout) { clearTimeout(this.sanityTimeout); this.sanityTimeout = null; }\<close>\<close>

definition clearSanityTimeout :: "world \<Rightarrow> world" where
  "clearSanityTimeout w =
     (case sanityTimeout w of
        Some h \<Rightarrow> w\<lparr>effects := effects w @ [ClearTimeout h], sanityTimeout := None\<rparr>
      | None \<Rightarrow> w)"

text \<open>
  \<^verbatim>\<open>method.apply(this)\<close> for each kind of release method.
  \<^item> The pool's own release hands the connection back.
  \<^item> \<^verbatim>\<open>part_001\<close> (lines 177 to 191) is a plain function: it calls
    \<^verbatim>\<open>this.rollbackTransactionIfNotCommitted()\<close> and drops the promise.
  \<^item> \<^verbatim>\<open>part_000\<close>, second class (lines 370 to 384), is \<^verbatim>\<open>async\<close> and awaits
    \<^verbatim>\<open>this.asyncTryRollback()\<close>.
  \<^item> \<^verbatim>\<open>part_000\<close>, first class (lines 166 to 178), and \<^verbatim>\<open>database.js\<close> (lines 137 to 149)
    have no rollback.
  \<^verbatim>\<open>patchClient\<close> installs the transaction methods together with the release override, so
  the method the override finds on \<^verbatim>\<open>this\<close> is the one defined above.
\<close>

primrec call_release :: "rmethod \<Rightarrow> world \<Rightarrow> task" where
  "call_release NativeRelease w = Return Undefined (w\<lparr>effects := effects w @ [PoolRelease]\<rparr>)"
| "call_release (PatchedRelease old) w =
     floating (rollbackTransactionIfNotCommitted (logger Trace ''Releasing client'' None w))
       (\<lambda>w1. call_release old (clearSanityTimeout (w1\<lparr>isQueryRunning := False\<rparr>)))"
| "call_release (PatchedRelease_async old) w =
     bind (asyncTryRollback (logger Trace ''Releasing client'' None w))
       (\<lambda>_ w1. call_release old (clearSanityTimeout (w1\<lparr>isQueryRunning := False\<rparr>)))"
| "call_release (PatchedRelease_list old) w =
     call_release old
       (clearSanityTimeout ((logger Trace ''Releasing client'' None w)\<lparr>isQueryRunning := False\<rparr>))"
| "call_release (PatchedRelease_db old) w =
     call_release old
       (clearSanityTimeout ((logger Trace ''Releasing client'' None w)\<lparr>isQueryRunning := False\<rparr>))"

text \<open>\<^verbatim>\<open>client.release()\<close>.\<close>

definition release :: "world \<Rightarrow> task" where
  "release w = call_release (release_m w) w"

section \<open>Patching a connection\<close>

text \<open>Modelled from the spec: \<^verbatim>\<open>patchNamedParameters(client)\<close> of the missing
  \<^verbatim>\<open>./named_parameters\<close> puts the named-parameter wrapper around the query method the
  connection has.\<close>

definition patchNamedParameters :: "rewriter \<Rightarrow> world \<Rightarrow> world" where
  "patchNamedParameters rw w = w\<lparr>query_m := NamedQuery rw (query_m w)\<rparr>"

text \<open>\<^verbatim>\<open>part_001\<close>, lines 136 to 249: every override is installed only where the method found
  does not carry \<^verbatim>\<open>methodWasPatched_\<close>.\<close>

definition patchClient :: "rewriter \<Rightarrow> world \<Rightarrow> world" where
  "patchClient rw w =
     (let w1 = (if \<not> namedParameters w
                then patchNamedParameters rw (w\<lparr>namedParameters := True\<rparr>) else w);
          w2 = (if \<not> query_methodWasPatched (query_m w1)
                then w1\<lparr>query_m := PatchedQuery (query_m w1)\<rparr> else w1);
          w3 = (if \<not> release_methodWasPatched (release_m w2)
                then w2\<lparr>release_m := PatchedRelease (release_m w2)\<rparr> else w2);
          w4 = (if \<not> beginTransaction_m w3 then w3\<lparr>beginTransaction_m := True\<rparr> else w3);
          w5 = (if \<not> commitTransaction_m w4 then w4\<lparr>commitTransaction_m := True\<rparr> else w4)
      in if \<not> rollbackTransactionIfNotCommitted_m w5
         then w5\<lparr>rollbackTransactionIfNotCommitted_m := True\<rparr> else w5)"

text \<open>\<^verbatim>\<open>part_000\<close>, second class, lines 329 to 447.\<close>

definition patchClient_async :: "rewriter \<Rightarrow> world \<Rightarrow> world" where
  "patchClient_async rw w =
     (let w1 = (if \<not> namedParameters w
                then patchNamedParameters rw (w\<lparr>namedParameters := True\<rparr>) else w);
          w2 = (if \<not> query_methodWasPatched (query_m w1)
                then w1\<lparr>query_m := PatchedQuery (query_m w1)\<rparr> else w1);
          w3 = (if \<not> release_methodWasPatched (release_m w2)
                then w2\<lparr>release_m := PatchedRelease_async (release_m w2)\<rparr> else w2);
          w4 = (if \<not> asyncBeginTransaction_m w3 then w3\<lparr>asyncBeginTransaction_m := True\<rparr> else w3);
          w5 = (if \<not> asyncCommitTransaction_m w4 then w4\<lparr>asyncCommitTransaction_m := True\<rparr> else w4)
      in if \<not> asyncTryRollback_m w5 then w5\<lparr>asyncTryRollback_m := True\<rparr> else w5)"

text \<open>\<^verbatim>\<open>part_000\<close>, first class, lines 127 to 181.\<close>

definition patchClient_list :: "rewriter \<Rightarrow> world \<Rightarrow> world" where
  "patchClient_list rw w =
     (let w0 = logger Trace ''Patching client'' None w;
          w1 = (if \<not> namedParameters w0
                then patchNamedParameters rw
                       ((logger Trace ''Patching named parameters'' None w0)\<lparr>namedParameters := True\<rparr>)
                else w0);
          w2 = (if \<not> query_methodWasPatched (query_m w1)
                then (logger Trace ''Patching query method'' None w1)
                       \<lparr>query_m := PatchedQuery (query_m w1)\<rparr>
                else w1)
      in if \<not> release_methodWasPatched (release_m w2)
         then (logger Trace ''Patching release method'' None w2)
                \<lparr>release_m := PatchedRelease_list (release_m w2)\<rparr>
         else w2)"

text \<open>\<^verbatim>\<open>database.js\<close>, lines 112 to 150: no guard of its own; \<^verbatim>\<open>getClient\<close> guards the call.\<close>

definition patchClient_db :: "rewriter \<Rightarrow> world \<Rightarrow> world" where
  "patchClient_db rw w =
     (let w1 = patchNamedParameters rw w;
          w2 = w1\<lparr>query_m := PatchedQuery_db (query_m w1)\<rparr>
      in w2\<lparr>release_m := PatchedRelease_db (release_m w2)\<rparr>)"

text \<open>\<^verbatim>\<open>database.js\<close>, lines 69 to 73.\<close>

definition patchOnce_db :: "rewriter \<Rightarrow> world \<Rightarrow> world" where
  "patchOnce_db rw w =
     (if \<not> patched w
      then patchClient_db rw ((logger Trace ''Patching client'' None w)\<lparr>patched := True\<rparr>)
      else w)"

section \<open>Acquiring a client\<close>

text \<open>\<^verbatim>\<open>client.sanityTimeout = setTimeout(..., ms)\<close>: a new handle; what the callback does when it
  fires is not part of this development.\<close>

definition armSanityTimeout :: "nat \<Rightarrow> world \<Rightarrow> world" where
  "armSanityTimeout ms w =
     w\<lparr>sanityTimeout := Some (nextTimer w),
       effects := effects w @ [SetTimeout (nextTimer w) ms],
       nextTimer := Suc (nextTimer w)\<rparr>"

text \<open>\<^verbatim>\<open>if (!client.uniqueId) { client.uniqueId = this.clientIdCounter++; }\<close>\<close>

definition assignUniqueId :: "world \<Rightarrow> world" where
  "assignUniqueId w =
     (if uniqueId w = None \<or> uniqueId w = Some 0
      then w\<lparr>uniqueId := Some (clientIdCounter w), clientIdCounter := Suc (clientIdCounter w)\<rparr>
      else w)"

text \<open>The stale-timer check of \<^verbatim>\<open>part_000\<close> and \<^verbatim>\<open>part_001\<close>, and the running-query check.\<close>

definition checkStale :: "world \<Rightarrow> world" where
  "checkStale w =
     (let w1 = (case sanityTimeout w of
                  Some h \<Rightarrow>
                    (logger Error ''Client is busy and still got returned from pool'' None w)
                      \<lparr>effects := effects w @ [ClearTimeout h], sanityTimeout := None\<rparr>
                | None \<Rightarrow> w)
      in if isQueryRunning w1
         then logger Error ''Client is running query and still got returned from pool'' None w1
         else w1)"




text \<open>\<^verbatim>\<open>database.js\<close>, lines 63 to 95: a stale timer is cancelled, the handle is overwritten
  by the new one.\<close>

definition getClient_db :: "rewriter \<Rightarrow> world \<Rightarrow> task" where
  "getClient_db rw w =
     Await PoolConnect (logger Trace ''Acquiring client'' None w)
       (\<lambda>out w'. case out of
          Rejected e \<Rightarrow> Throw e w'
        | Resolved client \<Rightarrow>
            (let w1 = patchOnce_db rw w';
                 w2 = (case sanityTimeout w1 of
                         Some h \<Rightarrow>
                           (logger Error ''Client is busy and still got returned from pool'' None w1)
                             \<lparr>effects := effects w1 @ [ClearTimeout h]\<rparr>
                       | None \<Rightarrow> w1)
             in Return client (armSanityTimeout 15000 w2)))"

section \<open>The handler and the configured property name\<close>

text \<open>The object literal a constructor of \<^verbatim>\<open>Database\<close> is called with, as far as the property
  names go: its keys and their values.\<close>

type_synonym ctor_options = "string \<rightharpoonup> string"

text \<open>\<^verbatim>\<open>part_001\<close>, lines 16 to 22, and both classes of \<^verbatim>\<open>part_000\<close>:
  \<^verbatim>\<open>constructor(fastify, { logger, pool, requestDecorator })\<close>. A key that is not passed is
  \<^verbatim>\<open>undefined\<close>, and \<^verbatim>\<open>request[undefined]\<close> is the property named \<^verbatim>\<open>"undefined"\<close>.\<close>

definition Database :: "ctor_options \<Rightarrow> world \<Rightarrow> world" where
  "Database opts w =
     w\<lparr>requestDecorator := (case opts ''requestDecorator'' of None \<Rightarrow> ''undefined'' | Some n \<Rightarrow> n),
       clientIdCounter := 1\<rparr>"

text \<open>\<^verbatim>\<open>database.js\<close>, lines 17 to 22:
  \<^verbatim>\<open>constructor(fastify, { logger, pool, clientDecorator = "dbClient" })\<close>.\<close>

definition Database_db :: "ctor_options \<Rightarrow> world \<Rightarrow> world" where
  "Database_db opts w =
     w\<lparr>clientDecorator := (case opts ''clientDecorator'' of None \<Rightarrow> ''dbClient'' | Some n \<Rightarrow> n)\<rparr>"

text \<open>\<^verbatim>\<open>plugin.js\<close>, line 18: \<^verbatim>\<open>options.requestDecoratorName || "dbClient"\<close>; an option that is
  not given, or is the empty string, is falsy.\<close>

definition requestDecoratorOption :: "string option \<Rightarrow> string" where
  "requestDecoratorOption name =
     (case name of None \<Rightarrow> ''dbClient'' | Some n \<Rightarrow> if n = [] then ''dbClient'' else n)"

text \<open>\<^verbatim>\<open>plugin.js\<close>, line 45: \<^verbatim>\<open>new Database(fastify, { logger, pool, requestDecorator })\<close>, with the
  class of \<^verbatim>\<open>part_000\<close> / \<^verbatim>\<open>part_001\<close> and with the class of \<^verbatim>\<open>database.js\<close>. The pool, the
  start-up probe and the hooks of \<^verbatim>\<open>postgresDbConnector\<close> are left out.\<close>

definition postgresDbConnector :: "string option \<Rightarrow> world \<Rightarrow> world" where
  "postgresDbConnector name w =
     Database [''requestDecorator'' \<mapsto> requestDecoratorOption name] w"

definition postgresDbConnector_db :: "string option \<Rightarrow> world \<Rightarrow> world" where
  "postgresDbConnector_db name w =
     Database_db [''requestDecorator'' \<mapsto> requestDecoratorOption name] w"

section \<open>The per-request precondition\<close>





text \<open>\<^verbatim>\<open>database.js\<close>, lines 101 to 106: no \<^verbatim>\<open>return\<close> either, and the property name is
  \<^verbatim>\<open>this.clientDecorator\<close>.\<close>

definition requireDbClient_db :: "rewriter \<Rightarrow> world \<Rightarrow> task" where
  "requireDbClient_db rw w =
     bind (getClient_db rw w)
       (\<lambda>client w1.
          Return Undefined (w1\<lparr>request := (request w1)(clientDecorator w1 \<mapsto> client)\<rparr>))"

section \<open>A connection fresh from the pool\<close>

text \<open>A connection object as \<^verbatim>\<open>pg\<close> creates it, in a server with the default decorator names
  and no cleanup plugin; used for the concrete instances below.\<close>

definition pooled :: world where
  "pooled =
     \<lparr>uniqueId = None, namedParameters = False, patched = False, lastQuery = None,
      isQueryRunning = False, isWithinTransaction = False, sanityTimeout = None,
      query_m = PgQuery, release_m = NativeRelease,
      beginTransaction_m = False, commitTransaction_m = False,
      rollbackTransactionIfNotCommitted_m = False,
      asyncBeginTransaction_m = False, asyncCommitTransaction_m = False,
      asyncTryRollback_m = False,
      clientIdCounter = 1, requestDecorator = ''dbClient'', clientDecorator = ''dbClient'',
      addCleanupWork = False, cleanupWork = [],
      request = Map.empty,
      logged = [], effects = [], nextTimer = 0\<rparr>"

text \<open>A rewriter for the instances: it leaves the text alone and passes the values in order.\<close>

definition plain_rewriter :: rewriter where
  "plain_rewriter text m = Inr (text, map snd m)"


definition accepting :: "io \<Rightarrow> world \<Rightarrow> outcome" where
  "accepting q w = (case q of DriverQuery text ps \<Rightarrow> Resolved (Rows (QResult 0 [])) | PoolConnect \<Rightarrow> Resolved (ObjRef 1))"

definition rejecting :: "io \<Rightarrow> world \<Rightarrow> outcome" where
  "rejecting q w = (case q of DriverQuery text ps \<Rightarrow> Rejected (DbError ''connection lost'') | PoolConnect \<Rightarrow> Resolved (ObjRef 1))"

text \<open>The same connection after each variant's patch.\<close>

definition client_001 :: world where
  "client_001 = patchClient plain_rewriter pooled"

definition client_async :: world where
  "client_async = patchClient_async plain_rewriter pooled"

definition client_db :: world where
  "client_db = patchOnce_db plain_rewriter pooled"

section \<open>Vocabulary of the statements\<close>

text \<open>What of the state a query leaves alone, with and without the effects.\<close>

definition kept :: "world \<Rightarrow> world \<Rightarrow> bool" where
  "kept w w' =
     (isWithinTransaction w' = isWithinTransaction w \<and> sanityTimeout w' = sanityTimeout w
      \<and> query_m w' = query_m w \<and> release_m w' = release_m w)"

definition unchanged :: "world \<Rightarrow> world \<Rightarrow> bool" where
  "unchanged w w' = (effects w' = effects w \<and> kept w w')"

text \<open>A continuation that passes the settled promise on as it is: a result is returned, an
  error is thrown, and nothing is sent meanwhile.\<close>

definition faithful :: "(outcome \<Rightarrow> world \<Rightarrow> task) \<Rightarrow> bool" where
  "faithful k =
     (\<forall>w. (\<forall>r. \<exists>w'. k (Resolved r) w = Return r w' \<and> unchanged w w')
        \<and> (\<forall>e. \<exists>w'. k (Rejected e) w = Throw e w' \<and> unchanged w w'))"

text \<open>Counting what was handed to the driver and to the timer.\<close>

definition is_sent :: "string \<Rightarrow> effect \<Rightarrow> bool" where
  "is_sent text x =
     (case x of Sent t ps \<Rightarrow> t = text | PoolRelease \<Rightarrow> False | SetTimeout h ms \<Rightarrow> False
      | ClearTimeout h \<Rightarrow> False)"

definition sent :: "string \<Rightarrow> world \<Rightarrow> nat" where
  "sent text w = length (filter (is_sent text) (effects w))"

definition is_SetTimeout :: "effect \<Rightarrow> bool" where
  "is_SetTimeout x =
     (case x of SetTimeout h ms \<Rightarrow> True | Sent text ps \<Rightarrow> False | PoolRelease \<Rightarrow> False
      | ClearTimeout h \<Rightarrow> False)"

definition armed :: "world \<Rightarrow> nat" where
  "armed w = length (filter is_SetTimeout (effects w))"

text \<open>A handler's queries one after the other, each awaited; a failed one is caught and the
  handler goes on.\<close>

fun run_queries :: "(io \<Rightarrow> world \<Rightarrow> outcome) \<Rightarrow> (string \<times> params) list \<Rightarrow> world \<Rightarrow> world" where
  "run_queries drv [] w = w"
| "run_queries drv (q # qs) w = run_queries drv qs (snd (run drv (query (fst q) (snd q) w)))"

text \<open>The state once the pending jobs a call left behind have settled as well, in the
  order they were detached.\<close>

fun settle_jobs :: "(io \<Rightarrow> world \<Rightarrow> outcome) \<Rightarrow> (io \<times> (outcome \<Rightarrow> world \<Rightarrow> task)) list \<Rightarrow> world \<Rightarrow> world" where
  "settle_jobs drv [] w = w"
| "settle_jobs drv (j # js) w = settle_jobs drv js (snd (run drv (snd j (drv (fst j) w) w)))"

definition settled :: "(io \<Rightarrow> world \<Rightarrow> outcome) \<Rightarrow> task \<Rightarrow> world" where
  "settled drv t = settle_jobs drv (detached drv t) (snd (run drv t))"

text \<open>A continuation that, however its promise settles, ends at once and leaves effects,
  transaction flag, timer and methods alone.\<close>

definition quiet :: "(outcome \<Rightarrow> world \<Rightarrow> task) \<Rightarrow> bool" where
  "quiet k = (\<forall>drv out w. unchanged w (snd (run drv (k out w))) \<and> detached drv (k out w) = [])"

section \<open>The control-flow combinators under \<open>run\<close>\<close>

lemma run_bind:
  "run drv (bind t f) =
     (case run drv t of (Normal v, w) \<Rightarrow> run drv (f v w) | (Thrown e, w) \<Rightarrow> (Thrown e, w))"
  by (induction t) auto

lemma run_try_catch_rethrow:
  "run drv (try_catch t (\<lambda>e w. Throw e (g e w))) =
     (case run drv t of (Normal v, w) \<Rightarrow> (Normal v, w) | (Thrown e, w) \<Rightarrow> (Thrown e, g e w))"
  by (induction t) auto

lemma run_try_finally:
  "run drv (try_finally t f) = (case run drv t of (c, w) \<Rightarrow> (c, f w))"
  by (induction t) auto

section \<open>What any query method does\<close>

lemma faithful_settle: "faithful settle"
  by (simp add: faithful_def settle_def unchanged_def kept_def)

lemma faithful_wrap:
  assumes "faithful k"
  shows "faithful (\<lambda>out w'. try_finally
            (try_catch (k out w') (\<lambda>err w''. Throw err (logger l msg (Some err) w'')))
            (\<lambda>w'. w'\<lparr>isQueryRunning := False\<rparr>))"
  unfolding faithful_def
proof (intro allI conjI)
  fix w r
  from assms obtain w' where "k (Resolved r) w = Return r w'" "unchanged w w'"
    unfolding faithful_def by blast
  then show "\<exists>w'. try_finally
            (try_catch (k (Resolved r) w) (\<lambda>err w''. Throw err (logger l msg (Some err) w'')))
            (\<lambda>w'. w'\<lparr>isQueryRunning := False\<rparr>) = Return r w' \<and> unchanged w w'"
    by (simp add: unchanged_def kept_def)
next
  fix w e
  from assms obtain w' where "k (Rejected e) w = Throw e w'" "unchanged w w'"
    unfolding faithful_def by blast
  then show "\<exists>w'. try_finally
            (try_catch (k (Rejected e) w) (\<lambda>err w''. Throw err (logger l msg (Some err) w'')))
            (\<lambda>w'. w'\<lparr>isQueryRunning := False\<rparr>) = Throw e w' \<and> unchanged w w'"
    by (simp add: unchanged_def kept_def logger_def)
qed

text \<open>Without parameters every method value, however many overrides it stacks, sends the
  text once, as given, and suspends; the transaction flag and the timer are as before.\<close>

lemma call_query_shape:
  "\<exists>w' k. call_query m text NoParams w = Await (DriverQuery text NoParams) w' k
     \<and> effects w' = effects w @ [Sent text NoParams]
     \<and> kept w w' \<and> faithful k"
proof (induction m arbitrary: w)
  case PgQuery
  show ?case by (simp add: faithful_settle kept_def)
next
  case (NamedQuery rw m)
  then show ?case by simp
next
  case (PatchedQuery m)
  obtain w' k where h:
    "call_query m text NoParams
       (w\<lparr>lastQuery := Some (trimmedText text, NoParams), isQueryRunning := True\<rparr>) =
     Await (DriverQuery text NoParams) w' k"
    and p: "effects w' = effects w @ [Sent text NoParams]" "kept w w'" "faithful k"
    using PatchedQuery.IH
      [of "w\<lparr>lastQuery := Some (trimmedText text, NoParams), isQueryRunning := True\<rparr>"]
    by (auto simp: kept_def)
  show ?case using p by (simp add: h faithful_wrap)
next
  case (PatchedQuery_db m)
  obtain w' k where h:
    "call_query m text NoParams
       ((logger Trace ''Issuing query'' None w)
          \<lparr>lastQuery := Some (text, NoParams), isQueryRunning := True\<rparr>) =
     Await (DriverQuery text NoParams) w' k"
    and p: "effects w' = effects w @ [Sent text NoParams]" "kept w w'" "faithful k"
    using PatchedQuery_db.IH
      [of "(logger Trace ''Issuing query'' None w)
             \<lparr>lastQuery := Some (text, NoParams), isQueryRunning := True\<rparr>"]
    by (auto simp: logger_def kept_def)
  show ?case using p by (simp add: h faithful_wrap)
qed

text \<open>Whatever the parameters, a query that has run to its end has left the transaction
  flag, the timer and the methods alone.\<close>

lemma run_call_query_kept: "kept w (snd (run drv (call_query m text ps w)))"
proof (induction m arbitrary: w "text" ps)
  case PgQuery
  show ?case by (simp add: kept_def settle_def split: outcome.splits)
next
  case (NamedQuery rw m)
  then show ?case by (cases ps) (auto simp: kept_def split: sum.splits)
next
  case (PatchedQuery m)
  have "kept (w\<lparr>lastQuery := Some (trimmedText text, ps), isQueryRunning := True\<rparr>)
     (snd (run drv (call_query m text ps
        (w\<lparr>lastQuery := Some (trimmedText text, ps), isQueryRunning := True\<rparr>))))"
    by (rule PatchedQuery.IH)
  then show ?case
    by (auto simp: kept_def run_try_finally run_try_catch_rethrow logger_def
             split: prod.splits completion.splits)
next
  case (PatchedQuery_db m)
  have "kept ((logger Trace ''Issuing query'' None w)
                \<lparr>lastQuery := Some (text, ps), isQueryRunning := True\<rparr>)
     (snd (run drv (call_query m text ps
        ((logger Trace ''Issuing query'' None w)
           \<lparr>lastQuery := Some (text, ps), isQueryRunning := True\<rparr>))))"
    by (rule PatchedQuery_db.IH)
  then show ?case
    by (auto simp: kept_def run_try_finally run_try_catch_rethrow logger_def
             split: prod.splits completion.splits)
qed

lemma run_call_query_NoParams:
  "\<exists>c w'. run drv (call_query m text NoParams w) = (c, w')
     \<and> effects w' = effects w @ [Sent text NoParams] \<and> kept w w'"
proof -
  obtain w1 k where h: "call_query m text NoParams w = Await (DriverQuery text NoParams) w1 k"
    and p: "effects w1 = effects w @ [Sent text NoParams]" "kept w w1" "faithful k"
    using call_query_shape by blast
  show ?thesis
  proof (cases "drv (DriverQuery text NoParams) w1")
    case (Resolved r)
    from p(3) obtain w' where "k (Resolved r) w1 = Return r w'" "unchanged w1 w'"
      unfolding faithful_def by blast
    with p Resolved show ?thesis by (simp add: h unchanged_def kept_def)
  next
    case (Rejected e)
    from p(3) obtain w' where "k (Rejected e) w1 = Throw e w'" "unchanged w1 w'"
      unfolding faithful_def by blast
    with p Rejected show ?thesis by (simp add: h unchanged_def kept_def)
  qed
qed

lemma first_await_query_NoParams:
  "\<exists>w'. first_await (bind (query text NoParams w) f) = Some (DriverQuery text NoParams, w')
     \<and> effects w' = effects w @ [Sent text NoParams] \<and> kept w w'"
proof -
  obtain w1 k where h: "call_query (query_m w) text NoParams w = Await (DriverQuery text NoParams) w1 k"
    and p: "effects w1 = effects w @ [Sent text NoParams]" "kept w w1"
    using call_query_shape by blast
  show ?thesis using p by (simp add: query_def h)
qed

lemma run_query_NoParams:
  "\<exists>c w'. run drv (query text NoParams w) = (c, w')
     \<and> effects w' = effects w @ [Sent text NoParams] \<and> kept w w'"
  unfolding query_def by (rule run_call_query_NoParams)

lemma sent_append:
  "effects w' = effects w @ [Sent text NoParams] \<Longrightarrow> sent text w' = Suc (sent text w)"
  by (simp add: sent_def is_sent_def)

lemma logger_fields:
  "effects (logger l msg e w) = effects w"
  "isWithinTransaction (logger l msg e w) = isWithinTransaction w"
  "sanityTimeout (logger l msg e w) = sanityTimeout w"
  "query_m (logger l msg e w) = query_m w"
  "release_m (logger l msg e w) = release_m w"
  "isQueryRunning (logger l msg e w) = isQueryRunning w"
  "logged (logger l msg e w) = logged w @ [Log l msg e]"
  by (simp_all add: logger_def)

lemma run_beginTransaction:
  assumes "\<not> isWithinTransaction w"
  shows "\<exists>c w'. run drv (query ''begin'' NoParams (logger Trace ''begin transaction'' None w)) = (c, w')
     \<and> effects w' = effects w @ [Sent ''begin'' NoParams] \<and> kept w w'
     \<and> run drv (beginTransaction w) =
         (case c of Normal r \<Rightarrow> (Normal Undefined, w'\<lparr>isWithinTransaction := True\<rparr>)
          | Thrown e \<Rightarrow> (Thrown e, w'))"
proof -
  obtain c w' where h: "run drv (query ''begin'' NoParams (logger Trace ''begin transaction'' None w)) = (c, w')"
    and p: "effects w' = effects (logger Trace ''begin transaction'' None w) @ [Sent ''begin'' NoParams]"
       "kept (logger Trace ''begin transaction'' None w) w'"
    using run_query_NoParams by blast
  show ?thesis using assms p
    by (cases c) (auto simp: beginTransaction_def run_bind h kept_def logger_fields)
qed

section \<open>What any release method does\<close>

lemma kept_refl: "kept w w"
  by (simp add: kept_def)

lemma kept_trans: "kept a b \<Longrightarrow> kept b c \<Longrightarrow> kept a c"
  by (simp add: kept_def)

lemma run_queries_kept: "kept w (run_queries drv qs w)"
proof (induction qs arbitrary: w)
  case Nil
  show ?case by (simp add: kept_refl)
next
  case (Cons q qs)
  have "kept w (snd (run drv (query (fst q) (snd q) w)))"
    unfolding query_def by (rule run_call_query_kept)
  then show ?case using Cons.IH kept_trans by simp
qed

lemma faithful_quiet:
  assumes "faithful k"
  shows "quiet (\<lambda>out w'. bind (k out w') (\<lambda>_ w''. Return Undefined w''))"
  unfolding quiet_def
proof (intro allI)
  fix drv out w
  show "unchanged w (snd (run drv (bind (k out w) (\<lambda>_ w''. Return Undefined w''))))
     \<and> detached drv (bind (k out w) (\<lambda>_ w''. Return Undefined w'')) = []"
  proof (cases out)
    case (Resolved r)
    from assms obtain w' where "k (Resolved r) w = Return r w'" "unchanged w w'"
      unfolding faithful_def by blast
    then show ?thesis using Resolved by simp
  next
    case (Rejected e)
    from assms obtain w' where "k (Rejected e) w = Throw e w'" "unchanged w w'"
      unfolding faithful_def by blast
    then show ?thesis using Rejected by simp
  qed
qed

lemma counters_fields:
  "sent text (logger l msg e w) = sent text w"
  "armed (logger l msg e w) = armed w"
  "sent text (w\<lparr>isQueryRunning := b\<rparr>) = sent text w"
  "armed (w\<lparr>isQueryRunning := b\<rparr>) = armed w"
  "sent text (w\<lparr>isWithinTransaction := b\<rparr>) = sent text w"
  "armed (w\<lparr>isWithinTransaction := b\<rparr>) = armed w"
  by (simp_all add: sent_def armed_def logger_def)

lemma clearSanityTimeout_fields:
  "sanityTimeout (clearSanityTimeout w) = None"
  "isWithinTransaction (clearSanityTimeout w) = isWithinTransaction w"
  "isQueryRunning (clearSanityTimeout w) = isQueryRunning w"
  "release_m (clearSanityTimeout w) = release_m w"
  "query_m (clearSanityTimeout w) = query_m w"
  "sent text (clearSanityTimeout w) = sent text w"
  "armed (clearSanityTimeout w) = armed w"
  by (simp_all add: clearSanityTimeout_def sent_def is_sent_def armed_def is_SetTimeout_def
        split: option.splits)

text \<open>Outside a transaction every release method, however many overrides it stacks, returns
  at once: no query is sent and no timer is armed.\<close>

lemma call_release_idle:
  assumes "\<not> isWithinTransaction w"
  shows "\<exists>w'. call_release m w = Return Undefined w' \<and> \<not> isWithinTransaction w'
     \<and> sent text w' = sent text w \<and> armed w' = armed w \<and> release_m w' = release_m w
     \<and> query_m w' = query_m w
     \<and> (sanityTimeout w = None \<longrightarrow> sanityTimeout w' = None)"
  using assms
proof (induction m arbitrary: w)
  case NativeRelease
  show ?case using NativeRelease by (simp add: sent_def is_sent_def armed_def is_SetTimeout_def)
next
  case (PatchedRelease m)
  let ?w = "clearSanityTimeout ((logger Trace ''Releasing client'' None w)\<lparr>isQueryRunning := False\<rparr>)"
  have "\<not> isWithinTransaction ?w"
    using PatchedRelease.prems by (simp add: clearSanityTimeout_fields logger_fields)
  from PatchedRelease.IH [OF this] obtain w' where
    "call_release m ?w = Return Undefined w'" "\<not> isWithinTransaction w'"
    "sent text w' = sent text ?w" "armed w' = armed ?w" "release_m w' = release_m ?w"
    "query_m w' = query_m ?w" "sanityTimeout w' = None"
    by (auto simp: clearSanityTimeout_fields)
  then show ?case using PatchedRelease.prems
    by (simp add: rollbackTransactionIfNotCommitted_def logger_fields clearSanityTimeout_fields
          counters_fields)
next
  case (PatchedRelease_async m)
  let ?w = "clearSanityTimeout
     ((logger Trace ''Called rollbackIfNotCommitted, within transaction = '' None
         (logger Trace ''Releasing client'' None w))\<lparr>isQueryRunning := False\<rparr>)"
  have "\<not> isWithinTransaction ?w"
    using PatchedRelease_async.prems by (simp add: clearSanityTimeout_fields logger_fields)
  from PatchedRelease_async.IH [OF this] obtain w' where
    "call_release m ?w = Return Undefined w'" "\<not> isWithinTransaction w'"
    "sent text w' = sent text ?w" "armed w' = armed ?w" "release_m w' = release_m ?w"
    "query_m w' = query_m ?w" "sanityTimeout w' = None"
    by (auto simp: clearSanityTimeout_fields)
  then show ?case using PatchedRelease_async.prems
    by (simp add: asyncTryRollback_def Let_def logger_fields clearSanityTimeout_fields
          counters_fields)
next
  case (PatchedRelease_list m)
  let ?w = "clearSanityTimeout ((logger Trace ''Releasing client'' None w)\<lparr>isQueryRunning := False\<rparr>)"
  have "\<not> isWithinTransaction ?w"
    using PatchedRelease_list.prems by (simp add: clearSanityTimeout_fields logger_fields)
  from PatchedRelease_list.IH [OF this] obtain w' where
    "call_release m ?w = Return Undefined w'" "\<not> isWithinTransaction w'"
    "sent text w' = sent text ?w" "armed w' = armed ?w" "release_m w' = release_m ?w"
    "query_m w' = query_m ?w" "sanityTimeout w' = None"
    by (auto simp: clearSanityTimeout_fields)
  then show ?case
    by (simp add: logger_fields clearSanityTimeout_fields counters_fields)
next
  case (PatchedRelease_db m)
  let ?w = "clearSanityTimeout ((logger Trace ''Releasing client'' None w)\<lparr>isQueryRunning := False\<rparr>)"
  have "\<not> isWithinTransaction ?w"
    using PatchedRelease_db.prems by (simp add: clearSanityTimeout_fields logger_fields)
  from PatchedRelease_db.IH [OF this] obtain w' where
    "call_release m ?w = Return Undefined w'" "\<not> isWithinTransaction w'"
    "sent text w' = sent text ?w" "armed w' = armed ?w" "release_m w' = release_m ?w"
    "query_m w' = query_m ?w" "sanityTimeout w' = None"
    by (auto simp: clearSanityTimeout_fields)
  then show ?case
    by (simp add: logger_fields clearSanityTimeout_fields counters_fields)
qed

text \<open>Inside a transaction the release of part_001 returns with the rollback sent and left pending.\<close>

lemma call_release_in_transaction:
  assumes "isWithinTransaction w"
  shows "\<exists>k w'. call_release (PatchedRelease old) w =
            Detach (DriverQuery ''rollback'' NoParams) k (Return Undefined w')
     \<and> quiet k \<and> \<not> isWithinTransaction w'
     \<and> sent ''rollback'' w' = Suc (sent ''rollback'' w) \<and> armed w' = armed w
     \<and> release_m w' = release_m w \<and> query_m w' = query_m w \<and> sanityTimeout w' = None"
proof -
  let ?wr = "logger Warn ''Rolling back transaction'' None
               ((logger Trace ''Releasing client'' None w)\<lparr>isWithinTransaction := False\<rparr>)"
  obtain w1 k where h: "call_query (query_m w) ''rollback'' NoParams ?wr =
        Await (DriverQuery ''rollback'' NoParams) w1 k"
    and p: "effects w1 = effects ?wr @ [Sent ''rollback'' NoParams]" "kept ?wr w1" "faithful k"
    using call_query_shape by blast
  let ?w2 = "clearSanityTimeout (w1\<lparr>isQueryRunning := False\<rparr>)"
  have s1: "sent ''rollback'' w1 = Suc (sent ''rollback'' w)"
    using p(1) by (simp add: sent_def is_sent_def logger_def)
  have a1: "armed w1 = armed w"
    using p(1) by (simp add: armed_def logger_def is_SetTimeout_def)
  have n: "\<not> isWithinTransaction ?w2"
    using p(2) by (simp add: kept_def clearSanityTimeout_fields logger_fields)
  from call_release_idle [OF n, of old "''rollback''"] obtain w' where
    r: "call_release old ?w2 = Return Undefined w'" "\<not> isWithinTransaction w'"
    "sent ''rollback'' w' = sent ''rollback'' ?w2" "armed w' = armed ?w2"
    "release_m w' = release_m ?w2" "query_m w' = query_m ?w2" "sanityTimeout w' = None"
    by (auto simp: clearSanityTimeout_fields)
  have e: "call_release (PatchedRelease old) w =
     Detach (DriverQuery ''rollback'' NoParams)
       (\<lambda>out w'. bind (k out w') (\<lambda>_ w''. Return Undefined w'')) (Return Undefined w')"
    using assms r(1)
    by (simp add: rollbackTransactionIfNotCommitted_def logger_fields query_def h)
  show ?thesis
    using r s1 a1 p(2) faithful_quiet [OF p(3)]
    by (simp add: e kept_def clearSanityTimeout_fields counters_fields logger_fields
          del: call_release.simps)
qed

text \<open>Inside a transaction the release of part_000 sends the rollback and awaits it; once it
  has settled either way, one rollback has been sent and the flag is clear.\<close>

lemma run_call_release_async_in_transaction:
  assumes "isWithinTransaction w"
  shows "\<exists>c w'. run drv (call_release (PatchedRelease_async old) w) = (c, w')
     \<and> \<not> isWithinTransaction w'
     \<and> sent ''rollback'' w' = Suc (sent ''rollback'' w) \<and> armed w' = armed w"
proof -
  let ?wr = "(logger Warn ''ROLLBACK <'' None
               (logger Trace ''Called rollbackIfNotCommitted, within transaction = '' None
                  (logger Trace ''Releasing client'' None w)))\<lparr>isWithinTransaction := False\<rparr>"
  obtain c w1 where h: "run drv (query ''rollback'' NoParams ?wr) = (c, w1)"
    and p: "effects w1 = effects ?wr @ [Sent ''rollback'' NoParams]" "kept ?wr w1"
    using run_query_NoParams by blast
  have s1: "sent ''rollback'' w1 = Suc (sent ''rollback'' w)"
    using p(1) by (simp add: sent_def is_sent_def logger_def)
  have a1: "armed w1 = armed w"
    using p(1) by (simp add: armed_def logger_def is_SetTimeout_def)
  have t1: "\<not> isWithinTransaction w1"
    using p(2) by (simp add: kept_def)
  show ?thesis
  proof (cases c)
    case (Normal r)
    let ?w2 = "clearSanityTimeout ((logger Warn ''ROLLBACK < Done'' None w1)\<lparr>isQueryRunning := False\<rparr>)"
    have n: "\<not> isWithinTransaction ?w2"
      using t1 by (simp add: clearSanityTimeout_fields logger_fields)
    from call_release_idle [OF n, of old "''rollback''"] obtain w' where
      r: "call_release old ?w2 = Return Undefined w'" "\<not> isWithinTransaction w'"
      "sent ''rollback'' w' = sent ''rollback'' ?w2" "armed w' = armed ?w2"
      by auto
    show ?thesis using assms Normal r s1 a1
      by (simp add: asyncTryRollback_def Let_def logger_fields run_bind h
            clearSanityTimeout_fields counters_fields)
  next
    case (Thrown e)
    show ?thesis using assms Thrown s1 a1 t1
      by (simp add: asyncTryRollback_def Let_def logger_fields run_bind h)
  qed
qed

lemma settled_detach_quiet:
  assumes "quiet k"
  shows "unchanged w' (settled drv (Detach q k (Return v w')))"
  using assms by (simp add: settled_def quiet_def)

lemma beginTransaction_opens:
  assumes "fst (run drv (beginTransaction w)) = Normal v"
  shows "isWithinTransaction (snd (run drv (beginTransaction w)))
     \<and> release_m (snd (run drv (beginTransaction w))) = release_m w"
proof (cases "isWithinTransaction w")
  case True
  then show ?thesis by (simp add: beginTransaction_def logger_fields)
next
  case False
  obtain c w' where k: "kept w w'"
    and r: "run drv (beginTransaction w) =
         (case c of Normal r \<Rightarrow> (Normal Undefined, w'\<lparr>isWithinTransaction := True\<rparr>)
          | Thrown e \<Rightarrow> (Thrown e, w'))"
    using run_beginTransaction [OF False] by blast
  from assms r obtain r' where "c = Normal r'" by (cases c) auto
  with r k show ?thesis by (simp add: kept_def)
qed

lemma asyncBeginTransaction_opens:
  "isWithinTransaction (snd (run drv (asyncBeginTransaction w)))
     \<and> release_m (snd (run drv (asyncBeginTransaction w))) = release_m w"
proof (cases "isWithinTransaction w")
  case True
  then show ?thesis by (simp add: asyncBeginTransaction_def logger_fields)
next
  case False
  let ?wb = "(logger Trace ''BEGIN <'' None w)\<lparr>isWithinTransaction := True\<rparr>"
  obtain c w' where h: "run drv (query ''begin'' NoParams ?wb) = (c, w')" and k: "kept ?wb w'"
    using run_query_NoParams by blast
  show ?thesis using False k
    by (cases c) (simp_all add: asyncBeginTransaction_def run_bind h kept_def logger_fields)
qed

section \<open>The instances evaluated\<close>

lemma client_001_eval:
  "\<not> isWithinTransaction client_001"
  "fst (run accepting (query ''begin'' NoParams (logger Trace ''begin transaction'' None client_001)))
     = Normal (Rows (QResult 0 []))"
  "fst (run accepting (query ''commit'' NoParams (client_001\<lparr>isWithinTransaction := False\<rparr>)))
     = Normal (Rows (QResult 0 []))"
  by (simp_all add: client_001_def patchClient_def patchNamedParameters_def
          pooled_def query_def logger_def accepting_def settle_def Let_def)

lemma client_async_eval:
  "\<not> isWithinTransaction client_async"
  "fst (run accepting (query ''begin'' NoParams
      ((logger Trace ''BEGIN <'' None client_async)\<lparr>isWithinTransaction := True\<rparr>)))
     = Normal (Rows (QResult 0 []))"
  "fst (run accepting (query ''commit'' NoParams
       (logger Trace ''COMMIT <'' None (client_async\<lparr>isWithinTransaction := True\<rparr>))))
     = Normal (Rows (QResult 0 []))"
  by (simp_all add: client_async_def patchClient_async_def patchNamedParameters_def
          pooled_def query_def logger_def accepting_def settle_def Let_def)

lemma client_001_begin:
  "release_m client_001 = PatchedRelease NativeRelease"
  "fst (run accepting (beginTransaction client_001)) = Normal Undefined"
  by (simp_all add: beginTransaction_def client_001_def patchClient_def patchNamedParameters_def
        pooled_def query_def logger_def accepting_def settle_def Let_def)

lemma client_async_begin:
  "release_m client_async = PatchedRelease_async NativeRelease"
  "fst (run accepting (asyncBeginTransaction client_async)) = Normal Undefined"
  by (simp_all add: asyncBeginTransaction_def client_async_def patchClient_async_def
        patchNamedParameters_def pooled_def query_def logger_def accepting_def settle_def Let_def)

section \<open>Errors of the patched query\<close>

text \<open>
  Claim C5. For the query override of \<^verbatim>\<open>part_001\<close> and of \<^verbatim>\<open>database.js\<close>, over any previous
  method \<open>old\<close>, in any state and any environment: the override ends as its one call of
  \<open>old\<close> ends. A result is passed on; an error is logged at error level and the same error
  is thrown; in both cases \<^verbatim>\<open>isQueryRunning\<close> is false afterwards. Nothing is handed to the
  driver beyond what that one call of \<open>old\<close> handed over, so there is no retry. Over the
  driver's own query: what the driver rejects with is what the caller gets.
\<close>

theorem patched_query_rethrows_and_clears_running_flag:
  "run drv (call_query (PatchedQuery old) text ps w) =
     (case run drv (call_query old text ps
                      (w\<lparr>lastQuery := Some (trimmedText text, ps), isQueryRunning := True\<rparr>)) of
        (Normal v, w') \<Rightarrow> (Normal v, w'\<lparr>isQueryRunning := False\<rparr>)
      | (Thrown e, w') \<Rightarrow>
          (Thrown e, (logger Error ''Database query error'' (Some e) w')\<lparr>isQueryRunning := False\<rparr>))
   \<and> run drv (call_query (PatchedQuery_db old) text ps w) =
     (case run drv (call_query old text ps
                      ((logger Trace ''Issuing query'' None w)
                         \<lparr>lastQuery := Some (text, ps), isQueryRunning := True\<rparr>)) of
        (Normal v, w') \<Rightarrow> (Normal v, w'\<lparr>isQueryRunning := False\<rparr>)
      | (Thrown e, w') \<Rightarrow>
          (Thrown e, (logger Error ''Database query error'' (Some e) w')\<lparr>isQueryRunning := False\<rparr>))
   \<and> \<not> isQueryRunning (snd (run drv (call_query (PatchedQuery old) text ps w)))
   \<and> \<not> isQueryRunning (snd (run drv (call_query (PatchedQuery_db old) text ps w)))
   \<and> effects (snd (run drv (call_query (PatchedQuery old) text ps w))) =
       effects (snd (run drv (call_query old text ps
                      (w\<lparr>lastQuery := Some (trimmedText text, ps), isQueryRunning := True\<rparr>))))
   \<and> effects (snd (run drv (call_query (PatchedQuery_db old) text ps w))) =
       effects (snd (run drv (call_query old text ps
                      ((logger Trace ''Issuing query'' None w)
                         \<lparr>lastQuery := Some (text, ps), isQueryRunning := True\<rparr>))))
   \<and> run drv (call_query (PatchedQuery PgQuery) text ps w) =
     (let w1 = w\<lparr>lastQuery := Some (trimmedText text, ps), isQueryRunning := True,
                  effects := effects w @ [Sent text ps]\<rparr> in
      case drv (DriverQuery text ps) w1 of
        Resolved v \<Rightarrow> (Normal v, w1\<lparr>isQueryRunning := False\<rparr>)
      | Rejected e \<Rightarrow>
          (Thrown e, (logger Error ''Database query error'' (Some e) w1)\<lparr>isQueryRunning := False\<rparr>))"
  by (auto simp: run_try_finally run_try_catch_rethrow logger_def settle_def Let_def
           split: prod.splits completion.splits outcome.splits)

section \<open>Commit and the transaction flag\<close>

lemma commitTransaction_clears_flag_before_dispatch:
  assumes "isWithinTransaction w"
  shows "\<exists>w'. first_await (commitTransaction w) = Some (DriverQuery ''commit'' NoParams, w')
     \<and> \<not> isWithinTransaction w' \<and> effects w' = effects w @ [Sent ''commit'' NoParams]"
  using assms first_await_query_NoParams [of "''commit''" "w\<lparr>isWithinTransaction := False\<rparr>"]
  by (auto simp: commitTransaction_def kept_def)

lemma asyncCommitTransaction_dispatches_inside_transaction:
  assumes "isWithinTransaction w"
  shows "\<exists>w'. first_await (asyncCommitTransaction w) = Some (DriverQuery ''commit'' NoParams, w')
     \<and> isWithinTransaction w' \<and> effects w' = effects w @ [Sent ''commit'' NoParams]"
  using assms first_await_query_NoParams [of "''commit''" "logger Trace ''COMMIT <'' None w"]
  by (auto simp: asyncCommitTransaction_def kept_def logger_def)

text \<open>
  Claim C1. The claim asks that no \<^verbatim>\<open>commit\<close> is in flight while \<^verbatim>\<open>isWithinTransaction\<close> reads
  true. \<^verbatim>\<open>commitTransaction\<close> of \<^verbatim>\<open>part_001\<close> does so (the lemma
  \<open>commitTransaction_clears_flag_before_dispatch\<close> above). \<^verbatim>\<open>asyncCommitTransaction\<close> of
  \<^verbatim>\<open>part_000\<close> does not: it awaits \<^verbatim>\<open>this.query("commit")\<close> first and clears the flag
  afterwards, under the comment that the assignment must come before the async call.
  On a freshly patched connection, after \<^verbatim>\<open>asyncBeginTransaction\<close> has succeeded, the state
  seen by everyone while the \<^verbatim>\<open>commit\<close> is in flight has the flag set.
\<close>

theorem asyncCommitTransaction_commit_in_flight_inside_transaction:
  "isWithinTransaction (snd (run accepting (asyncBeginTransaction client_async)))
   \<and> map_option (\<lambda>x. (fst x, isWithinTransaction (snd x), effects (snd x)))
       (first_await (asyncCommitTransaction (snd (run accepting (asyncBeginTransaction client_async)))))
     = Some (DriverQuery ''commit'' NoParams, True, [Sent ''begin'' NoParams, Sent ''commit'' NoParams])"
  by (simp add: asyncCommitTransaction_def asyncBeginTransaction_def client_async_def
        patchClient_async_def patchNamedParameters_def pooled_def query_def logger_def
        accepting_def settle_def Let_def)

section \<open>Protocol misuse\<close>

text \<open>
  Claim C6. \<^verbatim>\<open>beginTransaction\<close> inside a transaction and \<^verbatim>\<open>commitTransaction\<close> outside of one
  (\<^verbatim>\<open>part_001\<close>) return \<^verbatim>\<open>false\<close> at once, a falsy value, in the state they were called in but
  for one more log line at error level: nothing is sent and the flag is as before. When a
  first \<^verbatim>\<open>beginTransaction\<close> outside a transaction has completed normally, the flag is set
  and one \<^verbatim>\<open>begin\<close> was sent; a second call returns \<^verbatim>\<open>false\<close>, the flag stays set, and the one
  \<^verbatim>\<open>begin\<close> is still the only one.
\<close>

theorem protocol_misuse_is_logged_and_refused:
  "(isWithinTransaction w \<longrightarrow>
      beginTransaction w =
        Return (Bool False) (logger Error ''Tried to start transaction in transaction'' None w))
   \<and> (\<not> isWithinTransaction w \<longrightarrow>
      commitTransaction w =
        Return (Bool False) (logger Error ''Tried to commit transaction outside of transaction'' None w))
   \<and> \<not> truthy (Bool False)
   \<and> effects (logger Error msg None w) = effects w
   \<and> isWithinTransaction (logger Error msg None w) = isWithinTransaction w
   \<and> logged (logger Error msg None w) = logged w @ [Log Error msg None]
   \<and> (\<not> isWithinTransaction w \<and> fst (run drv (beginTransaction w)) = Normal v \<longrightarrow>
        isWithinTransaction (snd (run drv (beginTransaction w)))
        \<and> sent ''begin'' (snd (run drv (beginTransaction w))) = Suc (sent ''begin'' w)
        \<and> fst (run drv (beginTransaction (snd (run drv (beginTransaction w))))) = Normal (Bool False)
        \<and> isWithinTransaction (snd (run drv (beginTransaction (snd (run drv (beginTransaction w))))))
        \<and> sent ''begin'' (snd (run drv (beginTransaction (snd (run drv (beginTransaction w))))))
            = Suc (sent ''begin'' w))"
proof -
  have scen: "isWithinTransaction (snd (run drv (beginTransaction w)))
        \<and> sent ''begin'' (snd (run drv (beginTransaction w))) = Suc (sent ''begin'' w)
        \<and> fst (run drv (beginTransaction (snd (run drv (beginTransaction w))))) = Normal (Bool False)
        \<and> isWithinTransaction (snd (run drv (beginTransaction (snd (run drv (beginTransaction w))))))
        \<and> sent ''begin'' (snd (run drv (beginTransaction (snd (run drv (beginTransaction w))))))
            = Suc (sent ''begin'' w)"
    if a: "\<not> isWithinTransaction w" and b: "fst (run drv (beginTransaction w)) = Normal v"
  proof -
    obtain c w' where e: "effects w' = effects w @ [Sent ''begin'' NoParams]"
      and r: "run drv (beginTransaction w) =
         (case c of Normal r \<Rightarrow> (Normal Undefined, w'\<lparr>isWithinTransaction := True\<rparr>)
          | Thrown e \<Rightarrow> (Thrown e, w'))"
      using run_beginTransaction [OF a] by blast
    from b r obtain r' where "c = Normal r'" by (cases c) auto
    with r have r1: "run drv (beginTransaction w) = (Normal Undefined, w'\<lparr>isWithinTransaction := True\<rparr>)"
      by simp
    have s: "sent ''begin'' w' = Suc (sent ''begin'' w)" using e by (rule sent_append)
    have r2: "beginTransaction (w'\<lparr>isWithinTransaction := True\<rparr>) =
        Return (Bool False)
          (logger Error ''Tried to start transaction in transaction'' None
             (w'\<lparr>isWithinTransaction := True\<rparr>))"
      by (simp add: beginTransaction_def)
    show ?thesis using s
      by (simp add: r1 r2 logger_fields sent_def)
  qed
  show ?thesis using scen
    by (auto simp: beginTransaction_def commitTransaction_def logger_def)
qed

theorem protocol_misuse_is_logged_and_refused_witness:
  "isWithinTransaction (client_001\<lparr>isWithinTransaction := True\<rparr>)
   \<and> beginTransaction (client_001\<lparr>isWithinTransaction := True\<rparr>) =
       Return (Bool False)
         (logger Error ''Tried to start transaction in transaction'' None
            (client_001\<lparr>isWithinTransaction := True\<rparr>))
   \<and> \<not> isWithinTransaction client_001
   \<and> commitTransaction client_001 =
       Return (Bool False)
         (logger Error ''Tried to commit transaction outside of transaction'' None client_001)
   \<and> fst (run accepting (beginTransaction client_001)) = Normal Undefined
   \<and> fst (run accepting (beginTransaction (snd (run accepting (beginTransaction client_001)))))
       = Normal (Bool False)
   \<and> sent ''begin'' (snd (run accepting (beginTransaction (snd (run accepting (beginTransaction client_001))))))
       = Suc (sent ''begin'' client_001)"
proof -
  have a: "isWithinTransaction (client_001\<lparr>isWithinTransaction := True\<rparr>)" by simp
  have b: "\<not> isWithinTransaction client_001"
    by (simp add: client_001_def patchClient_def patchNamedParameters_def pooled_def Let_def)
  have c: "fst (run accepting (beginTransaction client_001)) = Normal Undefined"
    by (simp add: beginTransaction_def client_001_def patchClient_def patchNamedParameters_def
          pooled_def query_def logger_def accepting_def settle_def Let_def)
  show ?thesis
    using a b c
      protocol_misuse_is_logged_and_refused [of "client_001\<lparr>isWithinTransaction := True\<rparr>"]
      protocol_misuse_is_logged_and_refused [of client_001 _ accepting Undefined]
    by simp
qed

section \<open>What a transaction method returns\<close>

text \<open>
  Claim C10. In \<^verbatim>\<open>part_001\<close> and in \<^verbatim>\<open>part_000\<close>: outside a transaction, beginning one ends as
  its \<^verbatim>\<open>begin\<close> query ends, with \<^verbatim>\<open>undefined\<close> in place of the query's result and the same
  error when the query throws; inside a transaction, committing does the same with its
  \<^verbatim>\<open>commit\<close> query. The misuse cases return \<^verbatim>\<open>false\<close>. Both \<^verbatim>\<open>undefined\<close> and \<^verbatim>\<open>false\<close> are
  falsy, so the truth value of the result does not tell success from misuse; only a
  thrown error differs.
\<close>

theorem transaction_success_returns_undefined:
  "(\<not> isWithinTransaction w \<longrightarrow>
      fst (run drv (beginTransaction w)) =
        (case fst (run drv (query ''begin'' NoParams (logger Trace ''begin transaction'' None w))) of
           Normal r \<Rightarrow> Normal Undefined | Thrown e \<Rightarrow> Thrown e)
      \<and> fst (run drv (asyncBeginTransaction w)) =
        (case fst (run drv (query ''begin'' NoParams
                              ((logger Trace ''BEGIN <'' None w)\<lparr>isWithinTransaction := True\<rparr>))) of
           Normal r \<Rightarrow> Normal Undefined | Thrown e \<Rightarrow> Thrown e)
      \<and> fst (run drv (commitTransaction w)) = Normal (Bool False)
      \<and> fst (run drv (asyncCommitTransaction w)) = Normal (Bool False))
   \<and> (isWithinTransaction w \<longrightarrow>
      fst (run drv (commitTransaction w)) =
        (case fst (run drv (query ''commit'' NoParams (w\<lparr>isWithinTransaction := False\<rparr>))) of
           Normal r \<Rightarrow> Normal Undefined | Thrown e \<Rightarrow> Thrown e)
      \<and> fst (run drv (asyncCommitTransaction w)) =
        (case fst (run drv (query ''commit'' NoParams (logger Trace ''COMMIT <'' None w))) of
           Normal r \<Rightarrow> Normal Undefined | Thrown e \<Rightarrow> Thrown e)
      \<and> fst (run drv (beginTransaction w)) = Normal (Bool False)
      \<and> fst (run drv (asyncBeginTransaction w)) = Normal (Bool False))
   \<and> \<not> truthy Undefined \<and> \<not> truthy (Bool False)"
  by (auto simp: beginTransaction_def commitTransaction_def asyncBeginTransaction_def
        asyncCommitTransaction_def run_bind split: prod.splits completion.splits)

theorem transaction_success_returns_undefined_witness:
  "\<not> isWithinTransaction client_001
   \<and> fst (run accepting (beginTransaction client_001)) = Normal Undefined
   \<and> fst (run accepting (commitTransaction client_001)) = Normal (Bool False)
   \<and> isWithinTransaction (client_001\<lparr>isWithinTransaction := True\<rparr>)
   \<and> fst (run accepting (commitTransaction (client_001\<lparr>isWithinTransaction := True\<rparr>)))
       = Normal Undefined
   \<and> fst (run accepting (beginTransaction (client_001\<lparr>isWithinTransaction := True\<rparr>)))
       = Normal (Bool False)
   \<and> fst (run accepting (asyncBeginTransaction client_async)) = Normal Undefined
   \<and> fst (run accepting (asyncCommitTransaction (client_async\<lparr>isWithinTransaction := True\<rparr>)))
       = Normal Undefined
   \<and> truthy Undefined = truthy (Bool False)"
  using transaction_success_returns_undefined [of client_001 accepting]
    transaction_success_returns_undefined [of "client_001\<lparr>isWithinTransaction := True\<rparr>" accepting]
    transaction_success_returns_undefined [of client_async accepting]
    transaction_success_returns_undefined [of "client_async\<lparr>isWithinTransaction := True\<rparr>" accepting]
  by (simp add: client_001_eval client_async_eval)

section \<open>Release and the open transaction\<close>

text \<open>
  Claim C2. Take any state, any environment and any list of queries. When
  \<^verbatim>\<open>beginTransaction\<close> has completed normally and the queries have run (each to its end,
  failed or not), the transaction flag is set; \<^verbatim>\<open>release()\<close> then sends exactly one
  \<^verbatim>\<open>rollback\<close> and leaves the flag clear, both when it returns and once the rollback it
  left pending has settled. The same holds for \<^verbatim>\<open>part_000\<close> with \<^verbatim>\<open>asyncBeginTransaction\<close> and
  the awaited release, whether the rollback resolves or is rejected.
\<close>

theorem release_after_open_transaction_rolls_back_once:
  "(release_m w0 = PatchedRelease old \<and> fst (run drv (beginTransaction w0)) = Normal v \<longrightarrow>
      (let w2 = run_queries drv qs (snd (run drv (beginTransaction w0))) in
         isWithinTransaction w2
         \<and> sent ''rollback'' (snd (run drv (release w2))) = Suc (sent ''rollback'' w2)
         \<and> \<not> isWithinTransaction (snd (run drv (release w2)))
         \<and> sent ''rollback'' (settled drv (release w2)) = Suc (sent ''rollback'' w2)
         \<and> \<not> isWithinTransaction (settled drv (release w2))))
   \<and> (release_m w0 = PatchedRelease_async old' \<and> fst (run drv (asyncBeginTransaction w0)) = Normal v' \<longrightarrow>
      (let w2 = run_queries drv qs (snd (run drv (asyncBeginTransaction w0))) in
         isWithinTransaction w2
         \<and> sent ''rollback'' (snd (run drv (release w2))) = Suc (sent ''rollback'' w2)
         \<and> \<not> isWithinTransaction (snd (run drv (release w2)))))"
proof (intro conjI impI)
  assume a: "release_m w0 = PatchedRelease old \<and> fst (run drv (beginTransaction w0)) = Normal v"
  define w2 where "w2 = run_queries drv qs (snd (run drv (beginTransaction w0)))"
  have k: "kept (snd (run drv (beginTransaction w0))) w2"
    unfolding w2_def by (rule run_queries_kept)
  have t: "isWithinTransaction w2" and m: "release_m w2 = PatchedRelease old"
    using a k beginTransaction_opens [of drv w0 v] by (simp_all add: kept_def)
  obtain j w' where e: "call_release (PatchedRelease old) w2 =
            Detach (DriverQuery ''rollback'' NoParams) j (Return Undefined w')"
    and p: "quiet j" "\<not> isWithinTransaction w'" "sent ''rollback'' w' = Suc (sent ''rollback'' w2)"
    using call_release_in_transaction [OF t] by blast
  have re: "release w2 = Detach (DriverQuery ''rollback'' NoParams) j (Return Undefined w')"
    by (simp add: release_def m e del: call_release.simps)
  have u: "unchanged w' (settled drv (release w2))"
    using settled_detach_quiet [OF p(1)] by (simp add: re)
  have s: "sent ''rollback'' (settled drv (release w2)) = sent ''rollback'' w'"
    using u by (simp add: unchanged_def sent_def)
  have "isWithinTransaction w2
         \<and> sent ''rollback'' (snd (run drv (release w2))) = Suc (sent ''rollback'' w2)
         \<and> \<not> isWithinTransaction (snd (run drv (release w2)))
         \<and> sent ''rollback'' (settled drv (release w2)) = Suc (sent ''rollback'' w2)
         \<and> \<not> isWithinTransaction (settled drv (release w2))"
    using t p u s by (simp add: re unchanged_def kept_def)
  then show "let w2 = run_queries drv qs (snd (run drv (beginTransaction w0))) in
         isWithinTransaction w2
         \<and> sent ''rollback'' (snd (run drv (release w2))) = Suc (sent ''rollback'' w2)
         \<and> \<not> isWithinTransaction (snd (run drv (release w2)))
         \<and> sent ''rollback'' (settled drv (release w2)) = Suc (sent ''rollback'' w2)
         \<and> \<not> isWithinTransaction (settled drv (release w2))"
    by (simp add: w2_def Let_def)
next
  assume a: "release_m w0 = PatchedRelease_async old' \<and> fst (run drv (asyncBeginTransaction w0)) = Normal v'"
  define w2 where "w2 = run_queries drv qs (snd (run drv (asyncBeginTransaction w0)))"
  have k: "kept (snd (run drv (asyncBeginTransaction w0))) w2"
    unfolding w2_def by (rule run_queries_kept)
  have t: "isWithinTransaction w2" and m: "release_m w2 = PatchedRelease_async old'"
    using a k asyncBeginTransaction_opens [of drv w0] by (simp_all add: kept_def)
  obtain c w' where e: "run drv (call_release (PatchedRelease_async old') w2) = (c, w')"
    and p: "\<not> isWithinTransaction w'" "sent ''rollback'' w' = Suc (sent ''rollback'' w2)"
    using run_call_release_async_in_transaction [OF t] by blast
  have re: "run drv (release w2) = (c, w')"
    by (simp add: release_def m e del: call_release.simps)
  have "isWithinTransaction w2
         \<and> sent ''rollback'' (snd (run drv (release w2))) = Suc (sent ''rollback'' w2)
         \<and> \<not> isWithinTransaction (snd (run drv (release w2)))"
    using t p by (simp add: re)
  then show "let w2 = run_queries drv qs (snd (run drv (asyncBeginTransaction w0))) in
         isWithinTransaction w2
         \<and> sent ''rollback'' (snd (run drv (release w2))) = Suc (sent ''rollback'' w2)
         \<and> \<not> isWithinTransaction (snd (run drv (release w2)))"
    by (simp add: w2_def Let_def)
qed

theorem release_after_open_transaction_rolls_back_once_witness:
  "release_m client_001 = PatchedRelease NativeRelease
   \<and> fst (run accepting (beginTransaction client_001)) = Normal Undefined
   \<and> isWithinTransaction
       (run_queries accepting [(''select 1'', NoParams)] (snd (run accepting (beginTransaction client_001))))
   \<and> sent ''rollback''
       (snd (run accepting (release
          (run_queries accepting [(''select 1'', NoParams)]
             (snd (run accepting (beginTransaction client_001)))))))
     = Suc (sent ''rollback''
          (run_queries accepting [(''select 1'', NoParams)]
             (snd (run accepting (beginTransaction client_001)))))
   \<and> \<not> isWithinTransaction
       (settled accepting (release
          (run_queries accepting [(''select 1'', NoParams)]
             (snd (run accepting (beginTransaction client_001))))))
   \<and> release_m client_async = PatchedRelease_async NativeRelease
   \<and> fst (run accepting (asyncBeginTransaction client_async)) = Normal Undefined
   \<and> sent ''rollback''
       (snd (run accepting (release
          (run_queries accepting [(''select 1'', NoParams)]
             (snd (run accepting (asyncBeginTransaction client_async)))))))
     = Suc (sent ''rollback''
          (run_queries accepting [(''select 1'', NoParams)]
             (snd (run accepting (asyncBeginTransaction client_async)))))
   \<and> \<not> isWithinTransaction
       (snd (run accepting (release
          (run_queries accepting [(''select 1'', NoParams)]
             (snd (run accepting (asyncBeginTransaction client_async)))))))"
  using release_after_open_transaction_rolls_back_once
      [of client_001 NativeRelease accepting Undefined "[(''select 1'', NoParams)]" NativeRelease Undefined]
    release_after_open_transaction_rolls_back_once
      [of client_async NativeRelease accepting Undefined "[(''select 1'', NoParams)]" NativeRelease Undefined]
  by (simp add: client_001_begin client_async_begin Let_def del: run_queries.simps)

text \<open>
  Claim C4. On a connection whose release method is the override of \<^verbatim>\<open>part_001\<close>, in any
  state: the first \<^verbatim>\<open>release()\<close> sends at most one \<^verbatim>\<open>rollback\<close>; the second, called on the state
  the first returned in, sends no query of any text, suspends on nothing, leaves nothing
  pending, and arms no timer (neither call does); the timer handle is clear after both.
\<close>

theorem second_release_sends_no_rollback_and_arms_no_timer:
  "release_m w = PatchedRelease old \<longrightarrow>
     (let w1 = snd (run drv (release w)); w2 = snd (run drv (release w1)) in
        sent ''rollback'' w1 \<le> Suc (sent ''rollback'' w)
        \<and> sent text w2 = sent text w1
        \<and> armed w1 = armed w \<and> armed w2 = armed w1
        \<and> sanityTimeout w1 = None \<and> sanityTimeout w2 = None
        \<and> \<not> isWithinTransaction w1 \<and> \<not> isWithinTransaction w2
        \<and> first_await (release w1) = None \<and> detached drv (release w1) = [])"
proof
  assume m: "release_m w = PatchedRelease old"
  define w1 where "w1 = snd (run drv (release w))"
  have f: "sent ''rollback'' w1 \<le> Suc (sent ''rollback'' w) \<and> armed w1 = armed w
     \<and> sanityTimeout w1 = None \<and> \<not> isWithinTransaction w1 \<and> release_m w1 = PatchedRelease old"
  proof (cases "isWithinTransaction w")
    case True
    obtain j w' where e: "call_release (PatchedRelease old) w =
            Detach (DriverQuery ''rollback'' NoParams) j (Return Undefined w')"
      and p: "\<not> isWithinTransaction w'" "sent ''rollback'' w' = Suc (sent ''rollback'' w)"
        "armed w' = armed w" "release_m w' = release_m w" "sanityTimeout w' = None"
      using call_release_in_transaction [OF True] by blast
    have "w1 = w'" by (simp add: w1_def release_def m e del: call_release.simps)
    then show ?thesis using p m by simp
  next
    case False
    let ?w = "clearSanityTimeout ((logger Trace ''Releasing client'' None w)\<lparr>isQueryRunning := False\<rparr>)"
    have n: "\<not> isWithinTransaction ?w"
      using False by (simp add: clearSanityTimeout_fields logger_fields)
    from call_release_idle [OF n, of old "''rollback''"] obtain w' where
      r: "call_release old ?w = Return Undefined w'" "\<not> isWithinTransaction w'"
      "sent ''rollback'' w' = sent ''rollback'' ?w" "armed w' = armed ?w"
      "release_m w' = release_m ?w" "sanityTimeout w' = None"
      by (auto simp: clearSanityTimeout_fields)
    have "w1 = w'"
      using False r(1)
      by (simp add: w1_def release_def m rollbackTransactionIfNotCommitted_def logger_fields)
    then show ?thesis using r m
      by (simp add: clearSanityTimeout_fields counters_fields logger_fields)
  qed
  let ?v = "clearSanityTimeout ((logger Trace ''Releasing client'' None w1)\<lparr>isQueryRunning := False\<rparr>)"
  have n: "\<not> isWithinTransaction ?v"
    using f by (simp add: clearSanityTimeout_fields logger_fields)
  from call_release_idle [OF n, of old "text"] obtain w' where
    r: "call_release old ?v = Return Undefined w'" "\<not> isWithinTransaction w'"
    "sent text w' = sent text ?v" "armed w' = armed ?v" "sanityTimeout w' = None"
    by (auto simp: clearSanityTimeout_fields)
  have e2: "release w1 = Return Undefined w'"
    using f r(1)
    by (simp add: release_def rollbackTransactionIfNotCommitted_def logger_fields)
  have "sent ''rollback'' w1 \<le> Suc (sent ''rollback'' w)
        \<and> sent text (snd (run drv (release w1))) = sent text w1
        \<and> armed w1 = armed w \<and> armed (snd (run drv (release w1))) = armed w1
        \<and> sanityTimeout w1 = None \<and> sanityTimeout (snd (run drv (release w1))) = None
        \<and> \<not> isWithinTransaction w1 \<and> \<not> isWithinTransaction (snd (run drv (release w1)))
        \<and> first_await (release w1) = None \<and> detached drv (release w1) = []"
    using f r by (simp add: e2 clearSanityTimeout_fields counters_fields logger_fields)
  then show "let w1 = snd (run drv (release w)); w2 = snd (run drv (release w1)) in
        sent ''rollback'' w1 \<le> Suc (sent ''rollback'' w)
        \<and> sent text w2 = sent text w1
        \<and> armed w1 = armed w \<and> armed w2 = armed w1
        \<and> sanityTimeout w1 = None \<and> sanityTimeout w2 = None
        \<and> \<not> isWithinTransaction w1 \<and> \<not> isWithinTransaction w2
        \<and> first_await (release w1) = None \<and> detached drv (release w1) = []"
    by (simp add: w1_def Let_def)
qed

theorem second_release_sends_no_rollback_and_arms_no_timer_witness:
  "release_m (client_001\<lparr>isWithinTransaction := True, sanityTimeout := Some 7\<rparr>)
     = PatchedRelease NativeRelease
   \<and> sent ''rollback''
       (snd (run accepting (release (client_001\<lparr>isWithinTransaction := True, sanityTimeout := Some 7\<rparr>))))
     = 1
   \<and> sent ''rollback''
       (snd (run accepting (release
          (snd (run accepting (release (client_001\<lparr>isWithinTransaction := True, sanityTimeout := Some 7\<rparr>)))))))
     = 1
   \<and> sanityTimeout
       (snd (run accepting (release
          (snd (run accepting (release (client_001\<lparr>isWithinTransaction := True, sanityTimeout := Some 7\<rparr>)))))))
     = None
   \<and> armed
       (snd (run accepting (release
          (snd (run accepting (release (client_001\<lparr>isWithinTransaction := True, sanityTimeout := Some 7\<rparr>)))))))
     = 0"
proof -
  have m: "release_m (client_001\<lparr>isWithinTransaction := True, sanityTimeout := Some 7\<rparr>)
     = PatchedRelease NativeRelease"
    by (simp add: client_001_begin)
  have s: "sent ''rollback''
       (snd (run accepting (release (client_001\<lparr>isWithinTransaction := True, sanityTimeout := Some 7\<rparr>))))
     = 1"
    "armed (client_001\<lparr>isWithinTransaction := True, sanityTimeout := Some 7\<rparr>) = 0"
    by (simp_all add: release_def rollbackTransactionIfNotCommitted_def clearSanityTimeout_def
          client_001_def patchClient_def patchNamedParameters_def pooled_def query_def logger_def
          sent_def is_sent_def armed_def Let_def)
  show ?thesis
    using m s second_release_sends_no_rollback_and_arms_no_timer
      [of "client_001\<lparr>isWithinTransaction := True, sanityTimeout := Some 7\<rparr>" NativeRelease
          accepting "''rollback''"]
    by (simp add: Let_def)
qed

section \<open>Release and the pending rollback\<close>

text \<open>
  The \<^verbatim>\<open>async\<close> release of \<^verbatim>\<open>part_000\<close> over the pool's release, inside a transaction: it is
  suspended on the \<^verbatim>\<open>rollback\<close> with the connection not yet handed back; when the rollback
  resolves, the running flag and the timer are cleared and the connection goes to the
  pool; when it is rejected, the error is thrown and the connection is not handed back.
\<close>

lemma release_async_awaits_rollback:
  assumes "isWithinTransaction w"
  shows "\<exists>w1 k. call_release (PatchedRelease_async NativeRelease) w =
            Await (DriverQuery ''rollback'' NoParams) w1 k
     \<and> effects w1 = effects w @ [Sent ''rollback'' NoParams]
     \<and> (\<forall>r w2. \<exists>w3. k (Resolved r) w2 = Return Undefined w3
            \<and> effects w3 = effects (clearSanityTimeout w2) @ [PoolRelease]
            \<and> \<not> isQueryRunning w3 \<and> sanityTimeout w3 = None)
     \<and> (\<forall>e w2. \<exists>w3. k (Rejected e) w2 = Throw e w3 \<and> effects w3 = effects w2)"
proof -
  let ?wr = "(logger Warn ''ROLLBACK <'' None
               (logger Trace ''Called rollbackIfNotCommitted, within transaction = '' None
                  (logger Trace ''Releasing client'' None w)))\<lparr>isWithinTransaction := False\<rparr>"
  let ?f = "\<lambda>(_::jsval) w'. Return Undefined (logger Warn ''ROLLBACK < Done'' None w')"
  let ?g = "\<lambda>(_::jsval) w1. call_release NativeRelease (clearSanityTimeout (w1\<lparr>isQueryRunning := False\<rparr>))"
  obtain w1 k where h: "call_query (query_m w) ''rollback'' NoParams ?wr =
        Await (DriverQuery ''rollback'' NoParams) w1 k"
    and p: "effects w1 = effects ?wr @ [Sent ''rollback'' NoParams]" "faithful k"
    using call_query_shape by blast
  have e: "call_release (PatchedRelease_async NativeRelease) w =
     Await (DriverQuery ''rollback'' NoParams) w1 (\<lambda>out w'. bind (bind (k out w') ?f) ?g)"
    using assms by (simp add: asyncTryRollback_def Let_def logger_fields query_def h)
  have ok: "\<exists>w3. bind (bind (k (Resolved r) w2) ?f) ?g = Return Undefined w3
            \<and> effects w3 = effects (clearSanityTimeout w2) @ [PoolRelease]
            \<and> \<not> isQueryRunning w3 \<and> sanityTimeout w3 = None" for r w2
  proof -
    from p(2) obtain w' where "k (Resolved r) w2 = Return r w'" "unchanged w2 w'"
      unfolding faithful_def by blast
    then show ?thesis
      by (simp add: unchanged_def kept_def clearSanityTimeout_def logger_def split: option.splits)
  qed
  have ko: "\<exists>w3. bind (bind (k (Rejected e) w2) ?f) ?g = Throw e w3 \<and> effects w3 = effects w2"
    for e w2
  proof -
    from p(2) obtain w' where "k (Rejected e) w2 = Throw e w'" "unchanged w2 w'"
      unfolding faithful_def by blast
    then show ?thesis by (simp add: unchanged_def)
  qed
  show ?thesis
    using p(1) ok ko by (simp add: e logger_fields del: call_release.simps)
qed

text \<open>The release of \<^verbatim>\<open>database.js\<close>, which has no transactions: flag, timer, pool, in this order.\<close>

lemma release_db_order:
  "call_release (PatchedRelease_db NativeRelease) w =
     Return Undefined
       ((clearSanityTimeout ((logger Trace ''Releasing client'' None w)\<lparr>isQueryRunning := False\<rparr>))
          \<lparr>effects := effects (clearSanityTimeout w) @ [PoolRelease]\<rparr>)"
  by (simp add: clearSanityTimeout_def logger_def split: option.splits)

text \<open>
  Claim C3. The claim asks that release awaits the rollback before the connection goes back
  to the pool. The \<^verbatim>\<open>async\<close> release of \<^verbatim>\<open>part_000\<close> does (\<open>release_async_awaits_rollback\<close>). The
  release of \<^verbatim>\<open>part_001\<close> is a plain function that calls
  \<^verbatim>\<open>this.rollbackTransactionIfNotCommitted()\<close> without awaiting it: on a freshly patched
  connection with a transaction open it never suspends, it returns with the connection
  handed to the pool right after the \<^verbatim>\<open>rollback\<close> was sent, and the rollback is left as a
  pending job.
\<close>

theorem release_001_returns_connection_with_rollback_pending:
  "isWithinTransaction (snd (run accepting (beginTransaction client_001)))
   \<and> first_await (release (snd (run accepting (beginTransaction client_001)))) = None
   \<and> fst (run accepting (release (snd (run accepting (beginTransaction client_001)))))
       = Normal Undefined
   \<and> effects (snd (run accepting (release (snd (run accepting (beginTransaction client_001))))))
       = [Sent ''begin'' NoParams, Sent ''rollback'' NoParams, PoolRelease]
   \<and> map fst (detached accepting (release (snd (run accepting (beginTransaction client_001)))))
       = [DriverQuery ''rollback'' NoParams]"
  by (simp add: release_def beginTransaction_def rollbackTransactionIfNotCommitted_def
        clearSanityTimeout_def client_001_def patchClient_def patchNamedParameters_def pooled_def
        query_def logger_def accepting_def settle_def Let_def)

section \<open>Patching twice\<close>

text \<open>After \<^verbatim>\<open>patchClient\<close> every guard of \<^verbatim>\<open>patchClient\<close> finds its override in place.\<close>

lemma patchClient_installed:
  "namedParameters (patchClient rw w)"
  "query_methodWasPatched (query_m (patchClient rw w))"
  "release_methodWasPatched (release_m (patchClient rw w))"
  "beginTransaction_m (patchClient rw w)"
  "commitTransaction_m (patchClient rw w)"
  "rollbackTransactionIfNotCommitted_m (patchClient rw w)"
  by (simp_all add: patchClient_def patchNamedParameters_def Let_def)

lemma patchClient_idem: "patchClient rw (patchClient rw w) = patchClient rw w"
  by (subst patchClient_def) (simp add: Let_def patchClient_installed)

lemma patchOnce_db_idem: "patchOnce_db rw (patchOnce_db rw w) = patchOnce_db rw w"
proof (cases "patched w")
  case True
  then show ?thesis by (simp add: patchOnce_db_def)
next
  case False
  have "patched (patchOnce_db rw w)"
    by (simp add: patchOnce_db_def patchClient_db_def patchNamedParameters_def Let_def logger_def)
  then show ?thesis by (subst patchOnce_db_def) simp
qed

lemma patchClient_db_stacks:
  "query_m (patchClient_db rw (patchClient_db rw pooled)) =
     PatchedQuery_db (NamedQuery rw (PatchedQuery_db (NamedQuery rw PgQuery)))"
  by (simp add: patchClient_db_def patchNamedParameters_def Let_def pooled_def)

text \<open>
  Claim C7. In any state of the connection object, \<^verbatim>\<open>patchClient\<close> of \<^verbatim>\<open>part_001\<close> applied twice
  leaves the very object that applying it once leaves, and so does the guarded patch of
  \<^verbatim>\<open>getClient\<close> in \<^verbatim>\<open>database.js\<close>; hence query, release and the transaction methods are the
  same tasks. On a connection fresh from the pool the query and release methods carry one
  override each after two applications, and a rejected query is logged once.
\<close>

theorem patching_twice_is_patching_once:
  "patchClient rw (patchClient rw w) = patchClient rw w
   \<and> patchOnce_db rw (patchOnce_db rw w) = patchOnce_db rw w
   \<and> query text ps (patchClient rw (patchClient rw w)) = query text ps (patchClient rw w)
   \<and> release (patchClient rw (patchClient rw w)) = release (patchClient rw w)
   \<and> beginTransaction (patchClient rw (patchClient rw w)) = beginTransaction (patchClient rw w)
   \<and> commitTransaction (patchClient rw (patchClient rw w)) = commitTransaction (patchClient rw w)
   \<and> rollbackTransactionIfNotCommitted (patchClient rw (patchClient rw w)) =
       rollbackTransactionIfNotCommitted (patchClient rw w)
   \<and> query text ps (patchOnce_db rw (patchOnce_db rw w)) = query text ps (patchOnce_db rw w)
   \<and> release (patchOnce_db rw (patchOnce_db rw w)) = release (patchOnce_db rw w)
   \<and> query_m (patchClient rw (patchClient rw pooled)) = PatchedQuery (NamedQuery rw PgQuery)
   \<and> release_m (patchClient rw (patchClient rw pooled)) = PatchedRelease NativeRelease
   \<and> query_m (patchOnce_db rw (patchOnce_db rw pooled)) = PatchedQuery_db (NamedQuery rw PgQuery)
   \<and> release_m (patchOnce_db rw (patchOnce_db rw pooled)) = PatchedRelease_db NativeRelease
   \<and> logged (snd (run rejecting (query ''select 1'' NoParams (patchClient rw (patchClient rw pooled)))))
       = [Log Error ''Database query error'' (Some (DbError ''connection lost''))]"
proof -
  have a: "query_m (patchClient rw pooled) = PatchedQuery (NamedQuery rw PgQuery)"
    "release_m (patchClient rw pooled) = PatchedRelease NativeRelease"
    "logged (patchClient rw pooled) = []"
    by (simp_all add: patchClient_def patchNamedParameters_def Let_def pooled_def)
  have b: "query_m (patchOnce_db rw pooled) = PatchedQuery_db (NamedQuery rw PgQuery)"
    "release_m (patchOnce_db rw pooled) = PatchedRelease_db NativeRelease"
    by (simp_all add: patchOnce_db_def patchClient_db_def patchNamedParameters_def Let_def
          logger_def pooled_def)
  have c: "logged (snd (run rejecting (query ''select 1'' NoParams (patchClient rw pooled))))
       = [Log Error ''Database query error'' (Some (DbError ''connection lost''))]"
    by (simp add: query_def a rejecting_def settle_def logger_def)
  show ?thesis
    by (simp add: patchClient_idem patchOnce_db_idem a b c)
qed

section \<open>The normalised text\<close>

text \<open>In the normalised text a space, tab, line feed or carriage return is a space, no two
  of them are adjacent, there is no whitespace at either end, and every other character
  of the text is kept in its place.\<close>

lemma collapse_blank_is_space:
  "c \<in> set (collapse s) \<Longrightarrow> is_blank c \<Longrightarrow> c = CHR '' ''"
  by (induction s rule: collapse.induct) (auto split: if_splits)

lemma collapse_keeps_other_characters:
  "filter (\<lambda>c. \<not> is_blank c) (collapse s) = filter (\<lambda>c. \<not> is_blank c) s"
proof (induction s rule: collapse.induct)
  case 1
  show ?case by simp
next
  case (2 c cs)
  have d: "filter (\<lambda>c. \<not> is_blank c) (dropWhile is_blank cs) = filter (\<lambda>c. \<not> is_blank c) cs"
    by (induction cs) auto
  show ?case using 2 d by (auto simp: is_blank_def)
qed

lemma collapse_no_run:
  "collapse s = xs @ a # b # ys \<Longrightarrow> is_blank a \<Longrightarrow> \<not> is_blank b"
proof (induction s arbitrary: xs rule: collapse.induct)
  case 1
  then show ?case by simp
next
  case (2 c cs)
  show ?case
  proof (cases "is_blank c")
    case True
    note bc = True
    show ?thesis
    proof (cases xs)
      case Nil
      with 2(3) bc have t: "collapse (dropWhile is_blank cs) = b # ys" by simp
      show ?thesis
      proof (cases "dropWhile is_blank cs")
        case Nil
        with t show ?thesis by simp
      next
        case (Cons d ds)
        then have "\<not> is_blank d" using hd_dropWhile [of is_blank cs] by auto
        with t Cons show ?thesis by simp
      qed
    next
      case (Cons x xs')
      with 2(3) bc have "collapse (dropWhile is_blank cs) = xs' @ a # b # ys" by simp
      from 2(1) [OF bc this 2(4)] show ?thesis .
    qed
  next
    case False
    note nb = False
    show ?thesis
    proof (cases xs)
      case Nil
      with 2(3) nb have "c = a" by simp
      with nb 2(4) show ?thesis by simp
    next
      case (Cons x xs')
      with 2(3) nb have "collapse cs = xs' @ a # b # ys" by simp
      from 2(2) [OF nb this 2(4)] show ?thesis .
    qed
  qed
qed

lemma trim_ends:
  "trim s \<noteq> [] \<Longrightarrow> \<not> is_space (hd (trim s)) \<and> \<not> is_space (last (trim s))"
proof -
  assume n: "trim s \<noteq> []"
  let ?t = "dropWhile is_space (rev (dropWhile is_space s))"
  have t: "trim s = rev ?t" by (simp add: trim_def)
  with n have ne: "?t \<noteq> []" by simp
  then have l: "\<not> is_space (hd ?t)" using hd_dropWhile by blast
  have "last ?t = last (rev (dropWhile is_space s))"
    using ne by (metis append_is_Nil_conv last_appendR takeWhile_dropWhile_id)
  moreover have d: "dropWhile is_space s \<noteq> []"
  proof
    assume "dropWhile is_space s = []"
    then have "?t = []" by (simp only: rev.simps dropWhile.simps)
    with ne show False by (simp only: not_True_eq_False simp_thms)
  qed
  ultimately have "last ?t = hd (dropWhile is_space s)" by (simp add: last_rev)
  moreover have "\<not> is_space (hd (dropWhile is_space s))"
    using d hd_dropWhile by blast
  ultimately have h: "\<not> is_space (last ?t)" by simp
  show ?thesis using l h ne by (simp add: t hd_rev last_rev)
qed

lemma trim_infix: "\<exists>pre post. s = pre @ trim s @ post"
proof -
  let ?r = "rev (dropWhile is_space s)"
  have a: "takeWhile is_space ?r @ dropWhile is_space ?r = ?r"
    by (rule takeWhile_dropWhile_id)
  have "dropWhile is_space s = rev ?r" by simp
  also have "\<dots> = rev (takeWhile is_space ?r @ dropWhile is_space ?r)"
    by (simp only: a)
  also have "\<dots> = rev (dropWhile is_space ?r) @ rev (takeWhile is_space ?r)"
    by (rule rev_append)
  finally have b: "dropWhile is_space s = trim s @ rev (takeWhile is_space ?r)"
    by (simp only: trim_def)
  have "s = takeWhile is_space s @ (trim s @ rev (takeWhile is_space ?r))"
    using b by (metis takeWhile_dropWhile_id)
  then show ?thesis by blast
qed

lemma trimmedText_ends:
  "trimmedText t \<noteq> [] \<Longrightarrow>
     \<not> is_space (hd (trimmedText t)) \<and> \<not> is_space (last (trimmedText t))"
  unfolding trimmedText_def by (rule trim_ends)

lemma trimmedText_blank_is_space:
  assumes "c \<in> set (trimmedText t)" "is_blank c"
  shows "c = CHR '' ''"
proof -
  obtain pre post where "collapse t = pre @ trimmedText t @ post"
    using trim_infix [of "collapse t"] by (auto simp: trimmedText_def)
  then have "c \<in> set (collapse t)" using assms(1) by (metis Un_iff set_append)
  then show ?thesis using assms(2) by (rule collapse_blank_is_space)
qed

lemma trimmedText_no_run:
  assumes "trimmedText t = xs @ a # b # ys" "is_blank a"
  shows "\<not> is_blank b"
proof -
  obtain pre post where "collapse t = pre @ trimmedText t @ post"
    using trim_infix [of "collapse t"] by (auto simp: trimmedText_def)
  then have "collapse t = (pre @ xs) @ a # b # (ys @ post)" using assms(1) by simp
  then show ?thesis using assms(2) by (rule collapse_no_run)
qed

section \<open>What lastQuery records\<close>

text \<open>
  Claim C8, as stated, fails for the query override of \<^verbatim>\<open>database.js\<close> (lines 120 to 125), which
  records the text as given: after \<^verbatim>\<open>query("select  1")\<close>, with two spaces, \<^verbatim>\<open>lastQuery\<close> holds the
  two spaces, while the normalised text has one.
\<close>

theorem lastQuery_db_is_not_normalised:
  "lastQuery (snd (run accepting (query ''select  1'' NoParams client_db))) =
     Some (''select  1'', NoParams)
   \<and> trimmedText ''select  1'' = ''select 1''
   \<and> lastQuery (snd (run accepting (query ''select  1'' NoParams client_db))) \<noteq>
     Some (trimmedText ''select  1'', NoParams)"
  by (simp add: client_db_def patchOnce_db_def patchClient_db_def patchNamedParameters_def
        pooled_def query_def logger_def accepting_def settle_def Let_def trimmedText_def trim_def
        is_space_def is_blank_def)

text \<open>
  Claim C8, amended. Through the override of \<^verbatim>\<open>part_000\<close> / \<^verbatim>\<open>part_001\<close>, installed over the
  named-parameter wrapper of the driver's query, \<^verbatim>\<open>lastQuery\<close> holds the text with every run of
  space, tab, line feed and carriage return collapsed to one space and the whitespace at
  both ends removed, together with the parameters, from before the delegated call until
  after the query has ended. The text handed on is the text as given: without parameters
  or with positional ones it reaches the driver unchanged, and with named values it is the
  text the rewriter receives. Through the override of \<^verbatim>\<open>database.js\<close>, \<^verbatim>\<open>lastQuery\<close> holds the text
  as given.
\<close>

theorem lastQuery_normalised_text_sent_as_given:
  "first_await (call_query (PatchedQuery (NamedQuery rw PgQuery)) text NoParams w) =
     Some (DriverQuery text NoParams,
           w\<lparr>lastQuery := Some (trimmedText text, NoParams), isQueryRunning := True,
             effects := effects w @ [Sent text NoParams]\<rparr>)
   \<and> first_await (call_query (PatchedQuery (NamedQuery rw PgQuery)) text (Array xs) w) =
     Some (DriverQuery text (Array xs),
           w\<lparr>lastQuery := Some (trimmedText text, Array xs), isQueryRunning := True,
             effects := effects w @ [Sent text (Array xs)]\<rparr>)
   \<and> first_await (call_query (PatchedQuery (NamedQuery rw PgQuery)) text (Object m) w) =
     (case rw text m of
        Inl e \<Rightarrow> None
      | Inr r \<Rightarrow>
          Some (DriverQuery (fst r) (Array (snd r)),
                w\<lparr>lastQuery := Some (trimmedText text, Object m), isQueryRunning := True,
                  effects := effects w @ [Sent (fst r) (Array (snd r))]\<rparr>))
   \<and> lastQuery (snd (run drv (call_query (PatchedQuery (NamedQuery rw PgQuery)) text ps w))) =
     Some (trimmedText text, ps)
   \<and> first_await (call_query (PatchedQuery_db (NamedQuery rw PgQuery)) text NoParams w) =
     Some (DriverQuery text NoParams,
           (logger Trace ''Issuing query'' None w)
             \<lparr>lastQuery := Some (text, NoParams), isQueryRunning := True,
               effects := effects w @ [Sent text NoParams]\<rparr>)
   \<and> lastQuery (snd (run drv (call_query (PatchedQuery_db (NamedQuery rw PgQuery)) text ps w))) =
     Some (text, ps)"
proof -
  have a: "lastQuery (snd (run drv (call_query (PatchedQuery (NamedQuery rw PgQuery)) text ps w))) =
     Some (trimmedText text, ps)"
    by (cases ps)
      (auto simp: run_try_finally run_try_catch_rethrow settle_def logger_def
            split: prod.splits completion.splits outcome.splits sum.splits)
  have b: "lastQuery (snd (run drv (call_query (PatchedQuery_db (NamedQuery rw PgQuery)) text ps w))) =
     Some (text, ps)"
    by (cases ps)
      (auto simp: run_try_finally run_try_catch_rethrow settle_def logger_def
            split: prod.splits completion.splits outcome.splits sum.splits)
  have c1: "first_await (call_query (PatchedQuery (NamedQuery rw PgQuery)) text NoParams w) =
     Some (DriverQuery text NoParams,
           w\<lparr>lastQuery := Some (trimmedText text, NoParams), isQueryRunning := True,
             effects := effects w @ [Sent text NoParams]\<rparr>)"
    by simp
  have c2: "first_await (call_query (PatchedQuery (NamedQuery rw PgQuery)) text (Array xs) w) =
     Some (DriverQuery text (Array xs),
           w\<lparr>lastQuery := Some (trimmedText text, Array xs), isQueryRunning := True,
             effects := effects w @ [Sent text (Array xs)]\<rparr>)"
    by simp
  have c3: "first_await (call_query (PatchedQuery (NamedQuery rw PgQuery)) text (Object m) w) =
     (case rw text m of
        Inl e \<Rightarrow> None
      | Inr r \<Rightarrow>
          Some (DriverQuery (fst r) (Array (snd r)),
                w\<lparr>lastQuery := Some (trimmedText text, Object m), isQueryRunning := True,
                  effects := effects w @ [Sent (fst r) (Array (snd r))]\<rparr>))"
    by (simp split: sum.splits)
  have c4: "first_await (call_query (PatchedQuery_db (NamedQuery rw PgQuery)) text NoParams w) =
     Some (DriverQuery text NoParams,
           (logger Trace ''Issuing query'' None w)
             \<lparr>lastQuery := Some (text, NoParams), isQueryRunning := True,
               effects := effects w @ [Sent text NoParams]\<rparr>)"
    by (simp add: logger_def)
  show ?thesis
    by (intro conjI) (fact c1, fact c2, fact c3, fact a, fact c4, fact b)
qed

section \<open>The client bound to the request\<close>

lemma acquire_fields:
  "requestDecorator (armSanityTimeout ms w) = requestDecorator w"
  "request (armSanityTimeout ms w) = request w"
  "clientDecorator (armSanityTimeout ms w) = clientDecorator w"
  "addCleanupWork (armSanityTimeout ms w) = addCleanupWork w"
  "requestDecorator (checkStale w) = requestDecorator w"
  "request (checkStale w) = request w"
  "addCleanupWork (checkStale w) = addCleanupWork w"
  "requestDecorator (assignUniqueId w) = requestDecorator w"
  "request (assignUniqueId w) = request w"
  "addCleanupWork (assignUniqueId w) = addCleanupWork w"
  "requestDecorator (logger l msg e w) = requestDecorator w"
  "request (logger l msg e w) = request w"
  "clientDecorator (logger l msg e w) = clientDecorator w"
  "addCleanupWork (logger l msg e w) = addCleanupWork w"
  by (simp_all add: armSanityTimeout_def checkStale_def assignUniqueId_def logger_def Let_def
        split: option.splits)

lemma patch_fields:
  "requestDecorator (patchClient rw w) = requestDecorator w"
  "request (patchClient rw w) = request w"
  "addCleanupWork (patchClient rw w) = addCleanupWork w"
  "requestDecorator (patchClient_async rw w) = requestDecorator w"
  "request (patchClient_async rw w) = request w"
  "addCleanupWork (patchClient_async rw w) = addCleanupWork w"
  "requestDecorator (patchClient_list rw w) = requestDecorator w"
  "request (patchClient_list rw w) = request w"
  "clientDecorator (patchOnce_db rw w) = clientDecorator w"
  "request (patchOnce_db rw w) = request w"
  by (simp_all add: patchClient_def patchClient_async_def patchClient_list_def patchOnce_db_def
        patchClient_db_def patchNamedParameters_def logger_def Let_def)



lemma connector_names:
  "requestDecorator (postgresDbConnector name w) = requestDecoratorOption name"
  "clientDecorator (postgresDbConnector_db name w) = ''dbClient''"
  by (simp_all add: postgresDbConnector_def postgresDbConnector_db_def Database_def Database_db_def)





text \<open>With the class of \<^verbatim>\<open>database.js\<close> the name given as \<^verbatim>\<open>requestDecoratorName\<close> never arrives:
  \<^verbatim>\<open>plugin.js\<close> passes it under the key \<^verbatim>\<open>requestDecorator\<close>, the constructor reads the key
  \<^verbatim>\<open>clientDecorator\<close>, and the client is bound under \<^verbatim>\<open>dbClient\<close> whatever was configured.\<close>

lemma database_js_ignores_requestDecoratorName:
  "clientDecorator (postgresDbConnector_db name w) = ''dbClient''"
  "request (snd (run accepting
      (requireDbClient_db plain_rewriter (postgresDbConnector_db (Some ''pg'') pooled)))) ''pg''
     = None"
  "request (snd (run accepting
      (requireDbClient_db plain_rewriter (postgresDbConnector_db (Some ''pg'') pooled)))) ''dbClient''
     = Some (ObjRef 1)"
proof -
  show n: "clientDecorator (postgresDbConnector_db name w) = ''dbClient''" for name w
    by (rule connector_names(2))
  have q: "request (postgresDbConnector_db (Some ''pg'') pooled) = Map.empty"
    by (simp add: postgresDbConnector_db_def Database_db_def pooled_def)
  show "request (snd (run accepting
      (requireDbClient_db plain_rewriter (postgresDbConnector_db (Some ''pg'') pooled)))) ''pg''
     = None"
    by (simp add: requireDbClient_db_def getClient_db_def accepting_def acquire_fields
          patch_fields n q Let_def split: option.splits)
  show "request (snd (run accepting
      (requireDbClient_db plain_rewriter (postgresDbConnector_db (Some ''pg'') pooled)))) ''dbClient''
     = Some (ObjRef 1)"
    by (simp add: requireDbClient_db_def getClient_db_def accepting_def acquire_fields
          patch_fields n q Let_def split: option.splits)
qed

end
